theory Spec2Isabelle
  imports Main "HOL-Library.AList"
begin

section \<open>The syntax tree and the services the transform consults\<close>

text \<open>
  The embedding follows \<^verbatim>\<open>transformClassDeclaration.ts\<close> in the version that holds
  \<^verbatim>\<open>updateClass\<close> (the lifecycle rewriter). The repository's other copy of the file has
  neither the rewriter nor the injection of \<^verbatim>\<open>OnStart\<close>; its records and its
  configuration builder are otherwise the ones modelled here. Nodes of the TypeScript
  syntax tree that the transform only passes around are kept opaque; the parts it
  inspects are datatypes.
  Objects that the source compares with \<^verbatim>\<open>===\<close> (symbols, types, declarations) carry a
  number that stands for their identity, so HOL equality on them is that comparison.
\<close>

type_synonym uid = string
type_synonym node_id = nat
type_synonym decl = nat

datatype symbol = Symbol (symbol_id: nat) (symbol_name: string)
datatype ts_type = TsType nat

text \<open>The kinds of node the transform tests for; every other kind is \<open>OtherKind\<close>.\<close>

datatype syntax_kind = SuperKeyword | ThisKeyword | IdentifierKind | CallExpression
  | PropertyAccessExpression | ExpressionStatement | OtherKind

datatype node = Node (kind: syntax_kind) (ident: node_id) (children: "node list")

text \<open>
  A property name. \<^verbatim>\<open>"text" in x.name\<close> holds for identifiers and for string and numeric
  literals, not for a computed name.
\<close>

datatype property_name = Identifier string | StringLiteral string | NumericLiteral string
  | ComputedPropertyName

fun name_text :: "property_name \<Rightarrow> string option" where
  "name_text (Identifier t) = Some t"
| "name_text (StringLiteral t) = Some t"
| "name_text (NumericLiteral t) = Some t"
| "name_text ComputedPropertyName = None"

text \<open>
  Expressions: those of the source program that the transform does not look into
  (\<open>SourceExpr\<close>), and the literals it reads or builds with the factory \<^verbatim>\<open>f\<close>.
  An element of an object literal is a property assignment or something else
  (a shorthand, a spread, a method), which may still have a name.
\<close>

datatype expr =
    SourceExpr node
  | StringLit string
  | BoolLit bool
  | ArrayLit "expr list"
  | ObjectLit "elem list"
and elem =
    PropertyAssignment property_name expr
  | OtherElement "property_name option"

fun elem_name :: "elem \<Rightarrow> property_name option" where
  "elem_name (PropertyAssignment n e) = Some n"
| "elem_name (OtherElement n) = n"

text \<open>\<^verbatim>\<open>x.name && "text" in x.name && x.name.text === s\<close>\<close>

definition elem_named :: "string \<Rightarrow> elem \<Rightarrow> bool" where
  "elem_named s x = (case elem_name x of None \<Rightarrow> False | Some n \<Rightarrow> name_text n = Some s)"

text \<open>
  Type annotations: a reference to a named type (with the node of its \<^verbatim>\<open>typeName\<close>), any
  other annotation of the source, and the two the rewriter builds.
\<close>

datatype type_node =
    TypeReference node_id
  | OtherTypeNode node_id
  | UnionWithUndefined type_node
  | TupleType "type_node option list"

text \<open>\<^verbatim>\<open>f.identifier(text, true)\<close> asks for a name made unique: \<open>Unique\<close>.\<close>

datatype ts_identifier = Named string | Unique string

datatype binding_name = BindingIdentifier ts_identifier | BindingPattern node_id

text \<open>
  A constructor parameter: its name, its type annotation, and its subtree as the
  traversal of the constructor sees it.
\<close>

record parameter =
  param_name :: binding_name
  param_type :: "type_node option"
  param_node :: node

text \<open>Statements: those of the source, and those the rewriter builds.\<close>

datatype stmt =
    SourceStmt node
  | ExpressionStmt node
  | AssignParameters ts_identifier "ts_identifier list"
  | DestructureParameters "ts_identifier list" ts_identifier
  | BindPattern node_id ts_identifier
  | AssignField string node
  | BlockStmt "stmt list"

datatype token = NoToken | QuestionToken | ExclamationToken

text \<open>
  Class members. A property declaration carries the node of its name (what
  \<^verbatim>\<open>state.getSymbol(member.name)\<close> is asked about), its initializer, its type and its
  \<^verbatim>\<open>?\<close> or \<^verbatim>\<open>!\<close>. \<open>InferredProperty\<close> is a property whose initializer the rewriter
  replaced by the call that only infers its type; \<open>InternalProperty\<close> is the field the
  rewriter adds for the constructor's parameters (its generated name is not a member
  name the transform looks for). A constructor declaration has a body or, as an overload
  signature, none.
\<close>

datatype member =
    Constructor "parameter list" "stmt list option"
  | PropertyDeclaration node_id property_name "node option" "type_node option" token
  | InferredProperty node_id property_name node token
  | InternalProperty ts_identifier type_node
  | MethodDeclaration property_name "stmt list option"
  | OtherMember "property_name option"

fun member_name :: "member \<Rightarrow> property_name option" where
  "member_name (Constructor ps body) = None"
| "member_name (PropertyDeclaration i n init t tok) = Some n"
| "member_name (InferredProperty i n init tok) = Some n"
| "member_name (InternalProperty i t) = None"
| "member_name (MethodDeclaration n body) = Some n"
| "member_name (OtherMember n) = n"

text \<open>\<^verbatim>\<open>x.name && "text" in x.name && x.name.text === s\<close> on a class member.\<close>

definition member_named :: "string \<Rightarrow> member \<Rightarrow> bool" where
  "member_named s x = (case member_name x of None \<Rightarrow> False | Some n \<Rightarrow> name_text n = Some s)"

fun is_constructor :: "member \<Rightarrow> bool" where
  "is_constructor (Constructor ps body) = True"
| "is_constructor _ = False"

datatype heritage_token = ExtendsKeyword | ImplementsKeyword

text \<open>The expression of a heritage type: an identifier (with its node) or anything else.\<close>

datatype heritage_type = IdentifierExpression node_id | OtherExpression

record heritage_clause =
  clause_token :: heritage_token
  clause_types :: "heritage_type list"

record class_declaration =
  class_id :: node_id
  class_name :: "string option"
  heritageClauses :: "heritage_clause list option"
  members :: "member list"

datatype decorator_type = WithNodes | Base

record decorator_info =
  dec_type :: decorator_type
  dec_name :: string
  isFlameworkDecorator :: bool
  dec_declaration :: decl
  dec_arguments :: "expr list"

record class_info =
  isExternal :: bool
  decorators :: "decorator_info list"

text \<open>
  \<open>transform_state\<close> gathers what the source reads from \<^verbatim>\<open>TransformState\<close>, the
  TypeScript type checker and the helpers imported from \<^verbatim>\<open>util/\<close>, none of which is part
  of the file: each is a parameter. A location (a class declaration, a name) is given by
  the identity of its node. \<^verbatim>\<open>getTypeAtLocation\<close> and \<^verbatim>\<open>getTypeOfSymbolAtLocation\<close> are
  declared by the checker to return a type, never \<^verbatim>\<open>undefined\<close>, so the tests
  \<^verbatim>\<open>if (!instanceType) return\<close> that follow them in the source have no branch here.
  \<^verbatim>\<open>buildGuardsFromType\<close> yields property assignments named by string literals
  (the source casts each name to \<^verbatim>\<open>ts.StringLiteral\<close>): here pairs of name and guard.
\<close>

record transform_state =
  getSymbol :: "node_id \<Rightarrow> symbol option"
  symbolDeclarations :: "symbol \<Rightarrow> decl list"
  getUid :: "decl \<Rightarrow> uid"
  classes :: "symbol \<Rightarrow> class_info option"
  onStartDeclaration :: decl
  baseComponent :: "symbol option"
  getSuperClasses :: "node_id \<Rightarrow> node_id list"
  getTypeAtLocation :: "node_id \<Rightarrow> ts_type"
  getProperty :: "ts_type \<Rightarrow> string \<Rightarrow> symbol option"
  symbolParent :: "symbol \<Rightarrow> symbol option"
  getTypeOfSymbolAtLocation :: "symbol \<Rightarrow> node_id \<Rightarrow> ts_type"
  getProperties :: "ts_type \<Rightarrow> string list"
  getTypeOfPropertyOfType :: "ts_type \<Rightarrow> string \<Rightarrow> ts_type option"
  isTypeAssignableTo :: "ts_type \<Rightarrow> ts_type \<Rightarrow> bool"
  buildGuardFromType :: "ts_type \<Rightarrow> expr"
  buildGuardsFromType :: "ts_type \<Rightarrow> (string \<times> expr) list"
  transformNode :: "member \<Rightarrow> member"
  getUniversalTypeNode :: "node_id \<Rightarrow> ts_type \<Rightarrow> type_node option"
  getPrettyName :: "type_node option \<Rightarrow> string"
  replaceValue :: "member list \<Rightarrow> member \<Rightarrow> member \<Rightarrow> member list"

section \<open>The annotation configuration builder\<close>

text \<open>
  The names the author gave guards for: the properties of the \<^verbatim>\<open>attributes\<close> object
  literal whose name is a string literal or an identifier.
\<close>

fun custom_name :: "elem \<Rightarrow> string list" where
  "custom_name x = (case elem_name x of
       Some (StringLiteral t) \<Rightarrow> [t]
     | Some (Identifier t) \<Rightarrow> [t]
     | _ \<Rightarrow> [])"

fun custom_names :: "elem option \<Rightarrow> string set" where
  "custom_names (Some (PropertyAssignment n (ObjectLit props))) = set (concat (map custom_name props))"
| "custom_names _ = {}"

text \<open>The loop of \<^verbatim>\<open>calculateOmittedGuards\<close> over the properties of the superclass's shape.\<close>

definition same_type_names :: "transform_state \<Rightarrow> ts_type \<Rightarrow> ts_type \<Rightarrow> string set" where
  "same_type_names st attributes superAttributes =
     {name \<in> set (getProperties st superAttributes).
        (case getTypeOfPropertyOfType st attributes name of
           None \<Rightarrow> False
         | Some prop \<Rightarrow>
             (case getTypeOfPropertyOfType st superAttributes name of
                None \<Rightarrow> False
              | Some superProp \<Rightarrow> superProp = prop))}"

definition calculateOmittedGuards :: "transform_state \<Rightarrow> node_id \<Rightarrow> elem option \<Rightarrow> string set" where
  "calculateOmittedGuards st classDeclaration customAttributes =
     (let omittedNames = custom_names customAttributes;
          type = getTypeAtLocation st classDeclaration
      in case getProperty st type ''attributes'' of
           None \<Rightarrow> omittedNames
         | Some property \<Rightarrow>
             (case getSuperClasses st classDeclaration of
                [] \<Rightarrow> omittedNames
              | superClass # _ \<Rightarrow>
                  (case getProperty st (getTypeAtLocation st superClass) ''attributes'' of
                     None \<Rightarrow> omittedNames
                   | Some superProperty \<Rightarrow>
                       omittedNames \<union>
                       same_type_names st
                         (getTypeOfSymbolAtLocation st property classDeclaration)
                         (getTypeOfSymbolAtLocation st superProperty superClass))))"

definition guard_assignment :: "string \<times> expr \<Rightarrow> elem" where
  "guard_assignment g = PropertyAssignment (StringLiteral (fst g)) (snd g)"

text \<open>
  \<^verbatim>\<open>updateAttributeGuards\<close>; \<open>None\<close> is the source's bare \<^verbatim>\<open>return\<close>. The filter
  \<^verbatim>\<open>x !== attributes\<close> drops the one element that \<^verbatim>\<open>find\<close> returned, which is the first
  that equals it.
\<close>

definition updateAttributeGuards :: "transform_state \<Rightarrow> node_id \<Rightarrow> elem list \<Rightarrow> elem list option" where
  "updateAttributeGuards st node properties =
     (case getProperty st (getTypeAtLocation st node) ''attributes'' of
        None \<Rightarrow> None
      | Some property \<Rightarrow>
          if symbolParent st property \<noteq> baseComponent st then None
          else
            let attributesType = getTypeOfSymbolAtLocation st property node;
                attributes = find (elem_named ''attributes'') properties;
                attributeGuards = buildGuardsFromType st attributesType;
                omittedGuards = calculateOmittedGuards st node attributes;
                filteredGuards = map guard_assignment
                  (filter (\<lambda>x. fst x \<notin> omittedGuards) attributeGuards);
                rest = (case attributes of None \<Rightarrow> properties | Some a \<Rightarrow> remove1 a properties)
            in Some (case attributes of
                  Some (PropertyAssignment n (ObjectLit ps)) \<Rightarrow>
                    rest @ [PropertyAssignment n (ObjectLit (ps @ filteredGuards))]
                | _ \<Rightarrow>
                    rest @ [PropertyAssignment (Identifier ''attributes'') (ObjectLit filteredGuards)]))"

definition updateInstanceGuard :: "transform_state \<Rightarrow> node_id \<Rightarrow> elem list \<Rightarrow> elem list option" where
  "updateInstanceGuard st node properties =
     (case getProperty st (getTypeAtLocation st node) ''instance'' of
        None \<Rightarrow> None
      | Some property \<Rightarrow>
          if symbolParent st property \<noteq> baseComponent st then None
          else
            (case getSuperClasses st node of
               [] \<Rightarrow> None
             | superClass # _ \<Rightarrow>
                 (case find (elem_named ''instanceGuard'') properties of
                    Some customGuard \<Rightarrow> None
                  | None \<Rightarrow>
                      let instanceType = getTypeOfSymbolAtLocation st property node in
                      (case getProperty st (getTypeAtLocation st superClass) ''instance'' of
                         None \<Rightarrow> None
                       | Some superProperty \<Rightarrow>
                           let superInstanceType =
                                 getTypeOfSymbolAtLocation st superProperty superClass
                           in if \<not> isTypeAssignableTo st superInstanceType instanceType
                              then Some (properties @
                                [PropertyAssignment (Identifier ''instanceGuard'')
                                   (buildGuardFromType st instanceType)])
                              else Some properties))))"

text \<open>\<^verbatim>\<open>updateX(...) ?? properties\<close>\<close>

definition updateComponentConfig :: "transform_state \<Rightarrow> node_id \<Rightarrow> elem list \<Rightarrow> elem list" where
  "updateComponentConfig st node properties =
     (let properties1 = (case updateAttributeGuards st node properties of
                           None \<Rightarrow> properties | Some ps \<Rightarrow> ps)
      in case updateInstanceGuard st node properties1 of
           None \<Rightarrow> properties1 | Some ps \<Rightarrow> ps)"

definition generateFlameworkConfig ::
  "transform_state \<Rightarrow> node_id \<Rightarrow> decorator_info \<Rightarrow> elem list \<Rightarrow> expr" where
  "generateFlameworkConfig st node decorator config =
     (let properties = (if dec_name decorator = ''Component''
                        then updateComponentConfig st node config else config)
      in ObjectLit (PropertyAssignment (Identifier ''type'') (StringLit (dec_name decorator))
                    # properties))"

text \<open>
  The configuration of one decorator, as the loop of \<^verbatim>\<open>transformClassDeclaration\<close>
  computes it: \<^verbatim>\<open>decorator.arguments[0]\<close> when it is an object literal, else an empty
  object, for a Flamework decorator; the arguments wrapped for any other.
\<close>

fun first_object :: "expr list \<Rightarrow> elem list" where
  "first_object (ObjectLit ps # rest) = ps"
| "first_object _ = []"

definition decorator_config :: "transform_state \<Rightarrow> node_id \<Rightarrow> decorator_info \<Rightarrow> expr" where
  "decorator_config st node decorator =
     (if isFlameworkDecorator decorator
      then generateFlameworkConfig st node decorator (first_object (dec_arguments decorator))
      else ObjectLit [PropertyAssignment (Identifier ''type'') (StringLit ''Arbitrary''),
                      PropertyAssignment (Identifier ''arguments'')
                        (ArrayLit (dec_arguments decorator))])"

section \<open>The class metadata synthesizer\<close>

text \<open>
  The ways a run ends without a result: the messages of \<^verbatim>\<open>Diagnostics.error\<close>, and the
  \<^verbatim>\<open>TypeError\<close> that JavaScript throws when a property of \<^verbatim>\<open>undefined\<close> is read.
\<close>

datatype diagnostic =
    ExpectedTypeReference
  | CouldNotFindDeclaration
  | OnStartMember
  | UsedBeforeInitialization string
  | TypeError

text \<open>\<^verbatim>\<open>state.getSymbol(n)?.declarations?.[0]\<close>\<close>

definition first_declaration :: "transform_state \<Rightarrow> node_id \<Rightarrow> decl option" where
  "first_declaration st n =
     (case getSymbol st n of
        None \<Rightarrow> None
      | Some s \<Rightarrow> (case symbolDeclarations st s of [] \<Rightarrow> None | d # ds \<Rightarrow> Some d))"

text \<open>
  The loop over the constructor's parameters; \<^verbatim>\<open>Diagnostics.error\<close> throws, so the first
  parameter that fails ends it.
\<close>

fun constructorDependencies :: "transform_state \<Rightarrow> parameter list \<Rightarrow> diagnostic + uid list" where
  "constructorDependencies st [] = Inr []"
| "constructorDependencies st (param # params) =
     (case param_type param of
        Some (TypeReference typeName) \<Rightarrow>
          (case first_declaration st typeName of
             None \<Rightarrow> Inl CouldNotFindDeclaration
           | Some d \<Rightarrow>
               (case constructorDependencies st params of
                  Inl e \<Rightarrow> Inl e
                | Inr deps \<Rightarrow> Inr (getUid st d # deps)))
      | _ \<Rightarrow> Inl ExpectedTypeReference)"

definition dependency_fields ::
  "transform_state \<Rightarrow> class_declaration \<Rightarrow> diagnostic + (string \<times> expr) list" where
  "dependency_fields st node =
     (case find is_constructor (members node) of
        Some (Constructor params body) \<Rightarrow>
          (case constructorDependencies st params of
             Inl e \<Rightarrow> Inl e
           | Inr deps \<Rightarrow>
               Inr (if length params > 0
                    then [(''flamework:dependencies'', ArrayLit (map StringLit deps))]
                    else []))
      | _ \<Rightarrow> Inr [])"

definition clause_implements :: "transform_state \<Rightarrow> heritage_clause \<Rightarrow> uid list" where
  "clause_implements st clause =
     (if clause_token clause \<noteq> ImplementsKeyword then []
      else concat (map (\<lambda>t. case t of
                 IdentifierExpression n \<Rightarrow>
                   (case first_declaration st n of None \<Rightarrow> [] | Some d \<Rightarrow> [getUid st d])
               | OtherExpression \<Rightarrow> []) (clause_types clause)))"

definition is_component :: "decorator_info \<Rightarrow> bool" where
  "is_component x = (isFlameworkDecorator x \<and> dec_name x = ''Component'')"

text \<open>
  The list \<^verbatim>\<open>implementClauses\<close> when the block under \<^verbatim>\<open>if (node.heritageClauses)\<close>
  is done: the declared interfaces, and for a component the identifier of \<^verbatim>\<open>OnStart\<close>.
\<close>

definition implementClauses ::
  "transform_state \<Rightarrow> class_declaration \<Rightarrow> class_info \<Rightarrow> heritage_clause list
     \<Rightarrow> diagnostic + uid list" where
  "implementClauses st node classInfo clauses =
     (let declared = concat (map (clause_implements st) clauses)
      in if list_ex is_component (decorators classInfo)
         then
           let onStartId = getUid st (onStartDeclaration st)
           in if \<not> list_ex (\<lambda>x. x = onStartId) declared
              then (case find (member_named ''onStart'') (members node) of
                      Some existingOnStart \<Rightarrow> Inl OnStartMember
                    | None \<Rightarrow> Inr (declared @ [onStartId]))
              else Inr declared
         else Inr declared)"

definition implements_fields ::
  "transform_state \<Rightarrow> class_declaration \<Rightarrow> class_info \<Rightarrow> diagnostic + (string \<times> expr) list" where
  "implements_fields st node classInfo =
     (case heritageClauses node of
        None \<Rightarrow> Inr []
      | Some clauses \<Rightarrow>
          (case implementClauses st node classInfo clauses of
             Inl e \<Rightarrow> Inl e
           | Inr impl \<Rightarrow>
               Inr (if length impl > 0
                    then [(''flamework:implements'', ArrayLit (map StringLit impl))]
                    else [])))"

text \<open>
  \<^verbatim>\<open>decoratorConfigs\<close> is a JavaScript \<^verbatim>\<open>Map\<close>: setting a key that is present replaces
  its value where it stands, a new key goes last. That is \<open>AList.update\<close>.
\<close>

definition with_nodes :: "class_info \<Rightarrow> decorator_info list" where
  "with_nodes classInfo = filter (\<lambda>x. dec_type x = WithNodes) (decorators classInfo)"

definition decoratorConfigs ::
  "transform_state \<Rightarrow> node_id \<Rightarrow> decorator_info list \<Rightarrow> (uid \<times> expr) list" where
  "decoratorConfigs st node decs =
     fold (\<lambda>decorator m.
             AList.update (getUid st (dec_declaration decorator))
               (decorator_config st node decorator) m) decs []"

definition decorator_fields ::
  "transform_state \<Rightarrow> class_declaration \<Rightarrow> class_info \<Rightarrow> (string \<times> expr) list" where
  "decorator_fields st node classInfo =
     (let decs = with_nodes classInfo;
          decoratorIds = map (\<lambda>decorator. getUid st (dec_declaration decorator)) decs
      in (''flamework:decorators'', ArrayLit (map StringLit decoratorIds))
         # map (\<lambda>(id, config). (''flamework:decorators.'' @ id, config))
             (decoratorConfigs st (class_id node) decs))"

text \<open>The array \<^verbatim>\<open>fields\<close> when the last \<^verbatim>\<open>push\<close> is done.\<close>

definition metadata_fields ::
  "transform_state \<Rightarrow> class_declaration \<Rightarrow> class_info \<Rightarrow> diagnostic + (string \<times> expr) list" where
  "metadata_fields st node classInfo =
     (case dependency_fields st node of
        Inl e \<Rightarrow> Inl e
      | Inr deps \<Rightarrow>
          (case implements_fields st node classInfo of
             Inl e \<Rightarrow> Inl e
           | Inr impl \<Rightarrow>
               Inr ([(''identifier'', StringLit (getUid st (class_id node))),
                     (''flamework:isExternal'', BoolLit (isExternal classInfo))]
                    @ deps @ impl @ decorator_fields st node classInfo)))"

section \<open>The constructor and field lifecycle rewriter\<close>

text \<open>
  \<^verbatim>\<open>memberIndexMapping\<close>: for each property declaration whose name has a symbol, the
  index of the member; a later member with the same symbol overwrites an earlier one.
\<close>

fun index_member ::
  "transform_state \<Rightarrow> nat \<times> member \<Rightarrow> (symbol \<Rightarrow> nat option) \<Rightarrow> (symbol \<Rightarrow> nat option)" where
  "index_member st (i, PropertyDeclaration n name init t tok) m =
     (case getSymbol st n of None \<Rightarrow> m | Some symbol \<Rightarrow> m(symbol \<mapsto> i))"
| "index_member st (i, other) m = m"

definition memberIndexMapping :: "transform_state \<Rightarrow> member list \<Rightarrow> symbol \<Rightarrow> nat option" where
  "memberIndexMapping st ms = fold (index_member st) (enumerate 0 ms) Map.empty"

text \<open>
  \<^verbatim>\<open>ts.forEachChildRecursively(root, cb)\<close> calls \<open>cb\<close> on every node below the root, not
  on the root, a node before its children and before its later siblings.
\<close>

fun descendants :: "node \<Rightarrow> node list" where
  "descendants (Node k i cs) = concat (map (\<lambda>c. c # descendants c) cs)"

text \<open>
  The \<^verbatim>\<open>validator\<close> of the field at index \<open>i\<close>. \<^verbatim>\<open>if (!symbolIndex) return\<close> leaves
  both when the symbol has no index and when its index is \<open>0\<close>.
\<close>

definition validator ::
  "transform_state \<Rightarrow> (symbol \<Rightarrow> nat option) \<Rightarrow> nat \<Rightarrow> node \<Rightarrow> diagnostic option" where
  "validator st mapping i n =
     (case getSymbol st (ident n) of
        None \<Rightarrow> None
      | Some symbol \<Rightarrow>
          (case mapping symbol of
             None \<Rightarrow> None
           | Some symbolIndex \<Rightarrow>
               if symbolIndex = 0 then None
               else if symbolIndex \<ge> i
                    then Some (UsedBeforeInitialization (symbol_name symbol))
                    else None))"

fun first_diagnostic :: "('a \<Rightarrow> diagnostic option) \<Rightarrow> 'a list \<Rightarrow> diagnostic option" where
  "first_diagnostic check [] = None"
| "first_diagnostic check (x # xs) =
     (case check x of Some e \<Rightarrow> Some e | None \<Rightarrow> first_diagnostic check xs)"

text \<open>
  The body of \<^verbatim>\<open>members.map((x, i) => ...)\<close> for one member: the new member and what
  it pushes on \<^verbatim>\<open>propertyDeclarations\<close>.
\<close>

fun update_member ::
  "transform_state \<Rightarrow> (symbol \<Rightarrow> nat option) \<Rightarrow> nat \<times> member
     \<Rightarrow> diagnostic + member \<times> (string \<times> node) list" where
  "update_member st mapping (i, PropertyDeclaration n name (Some init) t tok) =
     (case name_text name of
        None \<Rightarrow> Inr (transformNode st (PropertyDeclaration n name (Some init) t tok), [])
      | Some text \<Rightarrow>
          (case first_diagnostic (validator st mapping i) (descendants init) of
             Some e \<Rightarrow> Inl e
           | None \<Rightarrow>
               Inr (case t of
                      Some ty \<Rightarrow>
                        PropertyDeclaration n name None
                          (Some (if tok = QuestionToken then UnionWithUndefined ty else ty))
                          ExclamationToken
                    | None \<Rightarrow>
                        (case getUniversalTypeNode st n (getTypeAtLocation st n) of
                           Some validTypeNode \<Rightarrow>
                             PropertyDeclaration n name None (Some validTypeNode) ExclamationToken
                         | None \<Rightarrow> InferredProperty n name init tok),
                    [(text, init)])))"
| "update_member st mapping (i, x) = Inr (transformNode st x, [])"

fun update_members ::
  "transform_state \<Rightarrow> (symbol \<Rightarrow> nat option) \<Rightarrow> (nat \<times> member) list
     \<Rightarrow> diagnostic + member list \<times> (string \<times> node) list" where
  "update_members st mapping [] = Inr ([], [])"
| "update_members st mapping (x # xs) =
     (case update_member st mapping x of
        Inl e \<Rightarrow> Inl e
      | Inr (y, props) \<Rightarrow>
          (case update_members st mapping xs of
             Inl e \<Rightarrow> Inl e
           | Inr (ys, later) \<Rightarrow> Inr (y # ys, props @ later)))"

text \<open>
  The search for the call of the base constructor: the first node, in the order of the
  traversal, that is \<^verbatim>\<open>super\<close> under a call; the call is returned.
\<close>

fun super_call :: "node \<Rightarrow> node option"
  and super_calls :: "node \<Rightarrow> node list \<Rightarrow> node option" where
  "super_call (Node k i cs) = super_calls (Node k i cs) cs"
| "super_calls parent [] = None"
| "super_calls parent (c # cs) =
     (if kind parent = CallExpression \<and> kind c = SuperKeyword then Some parent
      else case super_call c of Some r \<Rightarrow> Some r | None \<Rightarrow> super_calls parent cs)"

fun first_super_call :: "node list \<Rightarrow> node option" where
  "first_super_call [] = None"
| "first_super_call (n # ns) =
     (case super_call n of Some r \<Rightarrow> Some r | None \<Rightarrow> first_super_call ns)"

fun stmt_nodes :: "stmt \<Rightarrow> node list" where
  "stmt_nodes (SourceStmt n) = [n]"
| "stmt_nodes other = []"

text \<open>\<^verbatim>\<open>x !== superCall?.parent\<close>: the statement is not the node right above the call.\<close>

fun not_parent_of :: "node option \<Rightarrow> stmt \<Rightarrow> bool" where
  "not_parent_of (Some call) (SourceStmt n) = (call \<notin> set (children n))"
| "not_parent_of call other = True"

fun rewrite_parameter ::
  "transform_state \<Rightarrow> parameter \<Rightarrow> parameter \<times> ts_identifier \<times> stmt list" where
  "rewrite_parameter st p =
     (case param_name p of
        BindingIdentifier name \<Rightarrow> (p, name, [])
      | BindingPattern pattern \<Rightarrow>
          (let tempId = Unique (getPrettyName st (param_type p))
           in (p\<lparr>param_name := BindingIdentifier tempId\<rparr>, tempId, [BindPattern pattern tempId])))"

definition internalProp :: ts_identifier where
  "internalProp = Unique ''constructor_parameters''"

text \<open>
  The block under \<^verbatim>\<open>if (constructor)\<close> for a constructor with a body: the constructor
  that takes the place of the old one, and \<^verbatim>\<open>constructorStatements\<close>. The children of a
  constructor are its parameters and its body; the statements of the body are below the
  body's block, which is not a call.
\<close>

definition rewrite_constructor ::
  "transform_state \<Rightarrow> parameter list \<Rightarrow> stmt list \<Rightarrow> member \<times> stmt list" where
  "rewrite_constructor st params body =
     (let rewritten = map (rewrite_parameter st) params;
          parameters = map fst rewritten;
          parameterNames = map (\<lambda>r. fst (snd r)) rewritten;
          bindings = concat (map (\<lambda>r. snd (snd r)) rewritten);
          superCall = first_super_call (map param_node params @ concat (map stmt_nodes body));
          setConstructorParameters = AssignParameters internalProp parameterNames;
          constructorStatements =
            DestructureParameters parameterNames internalProp # bindings
            @ filter (not_parent_of superCall) body
      in (Constructor parameters
            (Some (case superCall of
                     Some call \<Rightarrow> [ExpressionStmt call, setConstructorParameters]
                   | None \<Rightarrow> [setConstructorParameters])),
          constructorStatements))"

text \<open>
  \<^verbatim>\<open>members.findIndex\<close> takes the first constructor declaration. When that one is a
  signature without body, \<^verbatim>\<open>constructor.body!.statements\<close> reads a property of
  \<^verbatim>\<open>undefined\<close> and the run ends there.
\<close>

definition hoist_constructor ::
  "transform_state \<Rightarrow> member list \<Rightarrow> diagnostic + member list \<times> stmt list" where
  "hoist_constructor st ms =
     (case find is_constructor ms of
        Some (Constructor params None) \<Rightarrow> Inl TypeError
      | Some (Constructor params (Some body)) \<Rightarrow>
          (let r = rewrite_constructor st params body
           in Inr (replaceValue st
                     (InternalProperty internalProp (TupleType (map param_type params)) # ms)
                     (Constructor params (Some body)) (fst r),
                   snd r))
      | _ \<Rightarrow> Inr (ms, []))"

fun findIndex :: "('a \<Rightarrow> bool) \<Rightarrow> 'a list \<Rightarrow> nat option" where
  "findIndex P [] = None"
| "findIndex P (x # xs) = (if P x then Some 0 else map_option Suc (findIndex P xs))"

text \<open>
  The new body of \<^verbatim>\<open>onStart\<close>, put where a member named \<^verbatim>\<open>onStart\<close> stands
  (an assignment at index \<open>-1\<close> changes no element).
\<close>

definition install_onStart ::
  "member list \<Rightarrow> property_name \<Rightarrow> stmt list \<Rightarrow> (string \<times> node) list \<Rightarrow> stmt list
     \<Rightarrow> member list" where
  "install_onStart ms name body propertyDeclarations constructorStatements =
     (let updated = MethodDeclaration name
            (Some (map (\<lambda>(field, init). AssignField field init) propertyDeclarations
                   @ [BlockStmt constructorStatements] @ body))
      in case findIndex (member_named ''onStart'') ms of
           None \<Rightarrow> ms
         | Some onStartIndex \<Rightarrow> ms[onStartIndex := updated])"

definition rewrite_members ::
  "transform_state \<Rightarrow> member list \<Rightarrow> property_name \<Rightarrow> stmt list \<Rightarrow> diagnostic + member list" where
  "rewrite_members st ms name body =
     (case update_members st (memberIndexMapping st ms) (enumerate 0 ms) of
        Inl e \<Rightarrow> Inl e
      | Inr (mapped, propertyDeclarations) \<Rightarrow>
          (case hoist_constructor st mapped of
             Inl e \<Rightarrow> Inl e
           | Inr h \<Rightarrow> Inr (install_onStart (fst h) name body propertyDeclarations (snd h))))"

text \<open>
  \<^verbatim>\<open>updateClass\<close>, up to the member list it hands to \<^verbatim>\<open>f.update.classDeclaration\<close>.
\<close>

definition updateClass ::
  "transform_state \<Rightarrow> class_declaration \<Rightarrow> decorator_info list \<Rightarrow> diagnostic + member list" where
  "updateClass st node decs =
     (if list_ex is_component decs
      then
        (let found = find (member_named ''onStart'') (members node);
             onStart = (case found of
                          None \<Rightarrow> MethodDeclaration (Identifier ''onStart'') (Some [])
                        | Some m \<Rightarrow> m);
             ms = (case found of None \<Rightarrow> onStart # members node | Some m \<Rightarrow> members node)
         in case onStart of
              MethodDeclaration name (Some body) \<Rightarrow> rewrite_members st ms name body
            | _ \<Rightarrow> Inr ms)
      else Inr (members node))"

text \<open>
  \<^verbatim>\<open>transformClassDeclaration\<close>. A class without symbol, name or class info is handed to
  \<^verbatim>\<open>state.transform\<close> as it is: \<open>Unprocessed\<close>. Otherwise the result is the member list
  of the rewritten class and the fields, one \<^verbatim>\<open>Reflect.defineMetadata\<close> statement each, in
  this order.
\<close>

datatype transform_result = Unprocessed | Emitted "member list" "(string \<times> expr) list"

definition transformClassDeclaration ::
  "transform_state \<Rightarrow> class_declaration \<Rightarrow> diagnostic + transform_result" where
  "transformClassDeclaration st node =
     (case getSymbol st (class_id node) of
        None \<Rightarrow> Inr Unprocessed
      | Some symbol \<Rightarrow>
          if class_name node = None then Inr Unprocessed
          else
            (case classes st symbol of
               None \<Rightarrow> Inr Unprocessed
             | Some classInfo \<Rightarrow>
                 (case metadata_fields st node classInfo of
                    Inl e \<Rightarrow> Inl e
                  | Inr realFields \<Rightarrow>
                      (case updateClass st node (with_nodes classInfo) of
                         Inl e \<Rightarrow> Inl e
                       | Inr ms \<Rightarrow> Inr (Emitted ms realFields)))))"

text \<open>
  The declaration a constructor parameter resolves to: its type is a type reference and
  the symbol of the referenced name has a declaration.
\<close>

definition param_declaration :: "transform_state \<Rightarrow> parameter \<Rightarrow> decl option" where
  "param_declaration st param =
     (case param_type param of
        Some (TypeReference typeName) \<Rightarrow> first_declaration st typeName
      | _ \<Rightarrow> None)"

text \<open>\<^verbatim>\<open>f.is.referenceType\<close> on the type annotation of a parameter.\<close>

fun is_reference_type :: "type_node option \<Rightarrow> bool" where
  "is_reference_type (Some (TypeReference typeName)) = True"
| "is_reference_type other = False"

text \<open>The keys of the records a run emitted, in order (none when it emitted nothing).\<close>

definition emitted_keys :: "diagnostic + transform_result \<Rightarrow> string list" where
  "emitted_keys r = (case r of Inr (Emitted ms fs) \<Rightarrow> map fst fs | _ \<Rightarrow> [])"

section \<open>Example inputs\<close>

text \<open>
  A small program for the concrete evaluations below: a class \<open>C\<close> (node 1) with
  superclass node 2, the declarations \<open>Logger\<close> (11), \<open>Store\<close> (12), \<open>OnStart\<close> (13),
  \<open>OnInit\<close> (14) and the decorators \<open>Service\<close> (15), \<open>Component\<close> (16), \<open>Custom\<close> (17).
  The class's \<open>instance\<close> type (141) is assignable to its superclass's (142), not the
  other way round; its \<open>attributes\<close> shape (143) narrows field \<open>x\<close> of the superclass's
  shape (144), keeps \<open>y\<close> and adds \<open>z\<close>.
\<close>

definition demo_uid :: "decl \<Rightarrow> uid" where
  "demo_uid d =
     (if d = 1 then ''C'' else if d = 11 then ''Logger'' else if d = 12 then ''Store''
      else if d = 13 then ''OnStart'' else if d = 14 then ''OnInit''
      else if d = 15 then ''Service'' else if d = 16 then ''Component''
      else ''Custom'')"

definition demo_state :: "class_info \<Rightarrow> transform_state" where
  "demo_state info =
     \<lparr> getSymbol = (\<lambda>n. if n = 0 then None
                         else if n = 30 \<or> n = 31 then Some (Symbol 30 ''a'')
                         else Some (Symbol n ''s'')),
       symbolDeclarations = (\<lambda>s. [symbol_id s]),
       getUid = demo_uid,
       classes = (\<lambda>s. if symbol_id s = 1 then Some info else None),
       onStartDeclaration = 13,
       baseComponent = Some (Symbol 3 ''BaseComponent''),
       getSuperClasses = (\<lambda>n. if n = 1 then [2] else []),
       getTypeAtLocation = (\<lambda>n. TsType n),
       getProperty = (\<lambda>t name.
          if name = ''instance'' then
            (if t = TsType 1 then Some (Symbol 41 ''instance'')
             else if t = TsType 2 then Some (Symbol 42 ''instance'') else None)
          else if name = ''attributes'' then
            (if t = TsType 1 then Some (Symbol 43 ''attributes'')
             else if t = TsType 2 then Some (Symbol 44 ''attributes'') else None)
          else None),
       symbolParent = (\<lambda>s. Some (Symbol 3 ''BaseComponent'')),
       getTypeOfSymbolAtLocation = (\<lambda>s n. TsType (100 + symbol_id s)),
       getProperties = (\<lambda>t. if t = TsType 143 then [''x'', ''y'', ''z'']
                            else if t = TsType 144 then [''x'', ''y''] else []),
       getTypeOfPropertyOfType = (\<lambda>t name.
          if t = TsType 143 then
            (if name = ''x'' then Some (TsType 201) else if name = ''y'' then Some (TsType 202)
             else if name = ''z'' then Some (TsType 203) else None)
          else if t = TsType 144 then
            (if name = ''x'' then Some (TsType 200) else if name = ''y'' then Some (TsType 202)
             else None)
          else None),
       isTypeAssignableTo = (\<lambda>a b. a = b \<or> (a = TsType 141 \<and> b = TsType 142)),
       buildGuardFromType = (\<lambda>t. StringLit ''guard''),
       buildGuardsFromType = (\<lambda>t. if t = TsType 143
          then [(''x'', StringLit ''gx''), (''y'', StringLit ''gy''), (''z'', StringLit ''gz'')]
          else []),
       transformNode = (\<lambda>m. m),
       getUniversalTypeNode = (\<lambda>n t. None),
       getPrettyName = (\<lambda>t. ''binding''),
       replaceValue = (\<lambda>ms old new. map (\<lambda>m. if m = old then new else m) ms) \<rparr>"

definition demo_parameter :: "string \<Rightarrow> node_id \<Rightarrow> parameter" where
  "demo_parameter name typeName =
     \<lparr> param_name = BindingIdentifier (Named name),
       param_type = Some (TypeReference typeName),
       param_node = Node OtherKind (typeName + 50) [] \<rparr>"

definition service_decorator :: decorator_info where
  "service_decorator =
     \<lparr> dec_type = WithNodes, dec_name = ''Service'', isFlameworkDecorator = True,
       dec_declaration = 15, dec_arguments = [] \<rparr>"

definition service_info :: class_info where
  "service_info = \<lparr> isExternal = False, decorators = [service_decorator] \<rparr>"

definition service_class :: "heritage_clause list option \<Rightarrow> class_declaration" where
  "service_class heritage =
     \<lparr> class_id = 1, class_name = Some ''C'', heritageClauses = heritage,
       members = [Constructor [demo_parameter ''logger'' 11, demo_parameter ''store'' 12]
                    (Some [])] \<rparr>"

definition implements_OnInit :: "heritage_clause list" where
  "implements_OnInit =
     [\<lparr> clause_token = ImplementsKeyword, clause_types = [IdentifierExpression 14] \<rparr>]"

definition plain_info :: class_info where
  "plain_info = \<lparr> isExternal = True, decorators = [] \<rparr>"

definition plain_class :: class_declaration where
  "plain_class = \<lparr> class_id = 1, class_name = Some ''C'', heritageClauses = None, members = [] \<rparr>"

definition custom_decorator :: "expr list \<Rightarrow> decorator_info" where
  "custom_decorator args =
     \<lparr> dec_type = WithNodes, dec_name = ''Custom'', isFlameworkDecorator = False,
       dec_declaration = 17, dec_arguments = args \<rparr>"

definition twice_info :: class_info where
  "twice_info = \<lparr> isExternal = False,
     decorators = [custom_decorator [StringLit ''one''], custom_decorator [StringLit ''two'']] \<rparr>"

definition untyped_class :: class_declaration where
  "untyped_class =
     \<lparr> class_id = 1, class_name = Some ''C'', heritageClauses = None,
       members = [Constructor [\<lparr> param_name = BindingIdentifier (Named ''x''),
                                 param_type = None,
                                 param_node = Node OtherKind 60 [] \<rparr>] (Some [])] \<rparr>"

definition component_decorator :: decorator_info where
  "component_decorator =
     \<lparr> dec_type = WithNodes, dec_name = ''Component'', isFlameworkDecorator = True,
       dec_declaration = 16, dec_arguments = [] \<rparr>"

definition component_info :: class_info where
  "component_info = \<lparr> isExternal = False, decorators = [component_decorator] \<rparr>"

text \<open>The author's own guard for the attribute \<open>x\<close>.\<close>

definition custom_attributes :: elem where
  "custom_attributes =
     PropertyAssignment (Identifier ''attributes'')
       (ObjectLit [PropertyAssignment (Identifier ''x'') (StringLit ''custom'')])"

text \<open>The same program under a checker for which every type is assignable to every type.\<close>

definition lenient_state :: transform_state where
  "lenient_state = (demo_state component_info)\<lparr> isTypeAssignableTo := (\<lambda>a b. True) \<rparr>"

text \<open>
  Component classes: the heritage clause \<open>extends\<close> of the superclass; a field \<open>a\<close>
  (name node 30) initialised with \<open>this.a\<close>, whose identifier (node 31) has the field's
  symbol; an empty method \<open>onStart\<close>; and a constructor with one parameter whose body
  calls \<open>super()\<close> and then runs one more statement.
\<close>

definition extends_Base :: "heritage_clause list" where
  "extends_Base =
     [\<lparr> clause_token = ExtendsKeyword, clause_types = [IdentifierExpression 2] \<rparr>]"

definition component_class :: "heritage_clause list option \<Rightarrow> member list \<Rightarrow> class_declaration" where
  "component_class heritage ms =
     \<lparr> class_id = 1, class_name = Some ''C'', heritageClauses = heritage, members = ms \<rparr>"

definition this_a :: node where
  "this_a = Node PropertyAccessExpression 32 [Node ThisKeyword 33 [], Node IdentifierKind 31 []]"

definition field_a :: member where
  "field_a = PropertyDeclaration 30 (Identifier ''a'') (Some this_a) None NoToken"

definition onStart_method :: member where
  "onStart_method = MethodDeclaration (Identifier ''onStart'') (Some [])"

definition super_call_node :: node where
  "super_call_node = Node CallExpression 71 [Node SuperKeyword 72 []]"

definition super_statement :: node where
  "super_statement = Node ExpressionStatement 70 [super_call_node]"

definition log_statement :: node where
  "log_statement = Node ExpressionStatement 73 [Node CallExpression 74 [Node IdentifierKind 75 []]]"

definition demo_constructor :: member where
  "demo_constructor =
     Constructor [demo_parameter ''logger'' 11]
       (Some [SourceStmt super_statement, SourceStmt log_statement])"

text \<open>
  A constructor whose second parameter names a type without declaration; a field \<open>n\<close>
  initialised with a literal; and a constructor signature without body, as an overload
  declares it.
\<close>

definition unresolved_class :: class_declaration where
  "unresolved_class =
     \<lparr> class_id = 1, class_name = Some ''C'', heritageClauses = None,
       members = [Constructor [demo_parameter ''logger'' 11, demo_parameter ''ghost'' 0]
                    (Some [])] \<rparr>"

definition field_n :: member where
  "field_n = PropertyDeclaration 34 (Identifier ''n'') (Some (Node OtherKind 35 [])) None NoToken"

definition overloaded_constructor :: member where
  "overloaded_constructor = Constructor [demo_parameter ''logger'' 11] None"

section \<open>Evaluation of the examples\<close>

lemmas demo_defs = demo_state_def demo_uid_def plain_class_def plain_info_def twice_info_def
  custom_decorator_def service_info_def service_decorator_def service_class_def
  demo_parameter_def implements_OnInit_def untyped_class_def component_decorator_def
  component_info_def custom_attributes_def lenient_state_def extends_Base_def
  component_class_def this_a_def field_a_def onStart_method_def super_call_node_def
  super_statement_def log_statement_def demo_constructor_def unresolved_class_def
  field_n_def overloaded_constructor_def

lemmas synth_defs = transformClassDeclaration_def metadata_fields_def dependency_fields_def
  implements_fields_def implementClauses_def clause_implements_def first_declaration_def
  decorator_fields_def decoratorConfigs_def with_nodes_def decorator_config_def
  generateFlameworkConfig_def updateClass_def is_component_def

section \<open>Auxiliary facts about the synthesizer\<close>

lemma fold_update_distinct:
  "distinct (map fst m) \<Longrightarrow>
   distinct (map fst (fold (\<lambda>d. AList.update (key d) (val d)) ds m))"
  by (induction ds arbitrary: m) (simp_all add: AList.distinct_update)

lemma decoratorConfigs_distinct: "distinct (map fst (decoratorConfigs st n decs))"
  unfolding decoratorConfigs_def by (rule fold_update_distinct) simp

lemma decorator_fields_keys:
  "map fst (decorator_fields st node classInfo) =
     ''flamework:decorators'' #
     map (\<lambda>id. ''flamework:decorators.'' @ id)
       (map fst (decoratorConfigs st (class_id node) (with_nodes classInfo)))"
  by (simp add: decorator_fields_def Let_def case_prod_beta comp_def)

lemma prefixed_distinct: "distinct ks \<Longrightarrow> distinct (map (\<lambda>k. p @ k) ks)"
  by (simp add: distinct_map inj_on_def)

lemma prefixed_longer: "length k0 < length p \<Longrightarrow> k0 \<notin> set (map (\<lambda>k. p @ k) ks)"
  by auto

lemma decorator_fields_distinct: "distinct (map fst (decorator_fields st node classInfo))"
proof -
  define ks where "ks = map fst (decoratorConfigs st (class_id node) (with_nodes classInfo))"
  have "distinct ks"
    unfolding ks_def by (rule decoratorConfigs_distinct)
  then have "distinct (map (\<lambda>id. ''flamework:decorators.'' @ id) ks)"
    by (rule prefixed_distinct)
  moreover have "''flamework:decorators'' \<notin> set (map (\<lambda>id. ''flamework:decorators.'' @ id) ks)"
    by (rule prefixed_longer) simp
  ultimately have "distinct (''flamework:decorators'' # map (\<lambda>id. ''flamework:decorators.'' @ id) ks)"
    by (simp only: distinct.simps simp_thms)
  then show ?thesis
    by (simp only: decorator_fields_keys ks_def)
qed

lemma dependency_fields_keys:
  "dependency_fields st node = Inr deps \<Longrightarrow>
   map fst deps = [] \<or> map fst deps = [''flamework:dependencies'']"
  by (auto simp: dependency_fields_def split: option.splits member.splits sum.splits if_splits)

lemma implements_fields_keys:
  "implements_fields st node classInfo = Inr impl \<Longrightarrow>
   map fst impl = [] \<or> map fst impl = [''flamework:implements'']"
  by (auto simp: implements_fields_def split: option.splits sum.splits if_splits)

lemma decorator_keys_prefix:
  "k \<in> set (map fst (decorator_fields st node classInfo)) \<Longrightarrow>
   k = ''flamework:decorators'' \<or> (\<exists>id. k = ''flamework:decorators.'' @ id)"
  unfolding decorator_fields_keys by auto

lemma keys_distinct:
  assumes "distinct D" and "dk = [] \<or> dk = [a3]" and "ik = [] \<or> ik = [a4]"
    and "distinct [a1, a2, a3, a4]"
    and "\<And>k. k \<in> set D \<Longrightarrow> k \<noteq> a1 \<and> k \<noteq> a2 \<and> k \<noteq> a3 \<and> k \<noteq> a4"
  shows "distinct (a1 # a2 # dk @ ik @ D)"
  using assms by auto

lemma metadata_fields_keys:
  assumes "metadata_fields st node classInfo = Inr fs"
  obtains deps impl where "dependency_fields st node = Inr deps"
    and "implements_fields st node classInfo = Inr impl"
    and "fs = (''identifier'', StringLit (getUid st (class_id node)))
            # (''flamework:isExternal'', BoolLit (isExternal classInfo))
            # deps @ impl @ decorator_fields st node classInfo"
  using assms by (auto simp: metadata_fields_def split: sum.splits)

lemma metadata_fields_distinct:
  assumes "metadata_fields st node classInfo = Inr fs"
  shows "distinct (map fst fs)"
proof -
  from assms obtain deps impl where d: "dependency_fields st node = Inr deps"
    and i: "implements_fields st node classInfo = Inr impl"
    and fs: "fs = (''identifier'', StringLit (getUid st (class_id node)))
            # (''flamework:isExternal'', BoolLit (isExternal classInfo))
            # deps @ impl @ decorator_fields st node classInfo"
    by (rule metadata_fields_keys)
  have others: "\<And>k. k \<in> set (map fst (decorator_fields st node classInfo)) \<Longrightarrow>
      k \<noteq> ''identifier'' \<and> k \<noteq> ''flamework:isExternal'' \<and> k \<noteq> ''flamework:dependencies''
      \<and> k \<noteq> ''flamework:implements''"
    by (drule decorator_keys_prefix) auto
  have "distinct (''identifier'' # ''flamework:isExternal'' # map fst deps @ map fst impl
          @ map fst (decorator_fields st node classInfo))"
    by (rule keys_distinct[OF decorator_fields_distinct dependency_fields_keys[OF d]
          implements_fields_keys[OF i] _ others]) simp_all
  then show ?thesis unfolding fs by simp
qed


lemma transform_processed:
  assumes "getSymbol st (class_id node) = Some symbol" and "class_name node = Some name"
    and "classes st symbol = Some classInfo"
  shows "transformClassDeclaration st node =
     (case metadata_fields st node classInfo of
        Inl e \<Rightarrow> Inl e
      | Inr fs \<Rightarrow>
          (case updateClass st node (with_nodes classInfo) of
             Inl e \<Rightarrow> Inl e
           | Inr ms \<Rightarrow> Inr (Emitted ms fs)))"
  using assms by (simp add: transformClassDeclaration_def)

lemma transform_emitted:
  assumes "transformClassDeclaration st node = Inr (Emitted ms fs)"
  obtains symbol classInfo where "getSymbol st (class_id node) = Some symbol"
    and "class_name node \<noteq> None" and "classes st symbol = Some classInfo"
    and "metadata_fields st node classInfo = Inr fs"
    and "updateClass st node (with_nodes classInfo) = Inr ms"
  using assms
  by (auto simp: transformClassDeclaration_def split: option.splits if_splits sum.splits)






lemma constructorDependencies_resolved:
  "\<forall>p\<in>set params. param_declaration st p \<noteq> None \<Longrightarrow>
   constructorDependencies st params =
     Inr (map (\<lambda>p. getUid st (the (param_declaration st p))) params)"
  by (induction params)
     (auto simp: param_declaration_def split: option.splits type_node.splits)

lemma constructorDependencies_unresolved:
  "\<exists>p\<in>set params. param_declaration st p = None \<Longrightarrow>
   constructorDependencies st params = Inl ExpectedTypeReference
   \<or> constructorDependencies st params = Inl CouldNotFindDeclaration"
proof (induction params)
  case Nil
  then show ?case by simp
next
  case (Cons p ps)
  show ?case
  proof (cases "param_declaration st p")
    case None
    then show ?thesis
      by (auto simp: param_declaration_def split: option.splits type_node.splits)
  next
    case (Some d)
    with Cons.prems have "\<exists>q\<in>set ps. param_declaration st q = None" by auto
    from Cons.IH[OF this] Some show ?thesis
      by (auto simp: param_declaration_def split: option.splits type_node.splits)
  qed
qed

lemma constructorDependencies_first_failure:
  "\<forall>q\<in>set before. param_declaration st q \<noteq> None \<Longrightarrow> param_declaration st p = None \<Longrightarrow>
   constructorDependencies st (before @ p # after) =
     Inl (if is_reference_type (param_type p) then CouldNotFindDeclaration
          else ExpectedTypeReference)"
proof (induction before)
  case Nil
  then show ?case
    by (cases "param_type p" rule: is_reference_type.cases)
       (simp_all add: param_declaration_def)
next
  case (Cons q qs)
  from Cons.prems obtain typeName d where q: "param_type q = Some (TypeReference typeName)"
    and d: "first_declaration st typeName = Some d"
    by (auto simp: param_declaration_def split: option.splits type_node.splits)
  from Cons.prems have "\<forall>q\<in>set qs. param_declaration st q \<noteq> None"
    by simp
  from Cons.IH[OF this Cons.prems(2)] q d show ?case
    by simp
qed

lemma constructorDependencies_diagnostics:
  "constructorDependencies st params = Inl e \<Longrightarrow>
   e = ExpectedTypeReference \<or> e = CouldNotFindDeclaration"
  by (induction params) (auto split: option.splits type_node.splits sum.splits)

lemma implementClauses_diagnostics:
  "implementClauses st node classInfo clauses = Inl e \<Longrightarrow> e = OnStartMember"
  by (auto simp: implementClauses_def Let_def split: if_splits option.splits)

lemma validator_diagnostics:
  "first_diagnostic (validator st mapping i) ns = Some e \<Longrightarrow> \<exists>name. e = UsedBeforeInitialization name"
  by (induction ns) (auto simp: validator_def split: option.splits if_splits)

lemma update_member_diagnostics:
  "update_member st mapping x = Inl e \<Longrightarrow> \<exists>name. e = UsedBeforeInitialization name"
  by (cases "(st, mapping, x)" rule: update_member.cases)
     (auto split: option.splits dest: validator_diagnostics)

lemma update_members_diagnostics:
  "update_members st mapping xs = Inl e \<Longrightarrow> \<exists>name. e = UsedBeforeInitialization name"
  by (induction xs) (auto split: sum.splits prod.splits dest: update_member_diagnostics)

lemma hoist_constructor_diagnostics:
  "hoist_constructor st ms = Inl e \<Longrightarrow> e = TypeError"
  by (auto simp: hoist_constructor_def Let_def split: option.splits member.splits)

lemma updateClass_diagnostics:
  "updateClass st node decs = Inl e \<Longrightarrow> e = TypeError \<or> (\<exists>name. e = UsedBeforeInitialization name)"
  by (auto simp: updateClass_def rewrite_members_def Let_def
      split: if_splits member.splits option.splits sum.splits prod.splits
      dest: update_members_diagnostics hoist_constructor_diagnostics)

lemma decoratorConfigs_snoc:
  "decoratorConfigs st n (decs @ [d]) =
     AList.update (getUid st (dec_declaration d)) (decorator_config st n d)
       (decoratorConfigs st n decs)"
  by (simp add: decoratorConfigs_def)

lemma decoratorConfigs_last:
  assumes "\<forall>d'\<in>set after. getUid st (dec_declaration d') \<noteq> getUid st (dec_declaration d)"
  shows "map_of (decoratorConfigs st n (before @ d # after)) (getUid st (dec_declaration d))
     = Some (decorator_config st n d)"
  using assms
proof (induction after rule: rev_induct)
  case Nil
  then show ?case by (simp add: decoratorConfigs_snoc AList.update_conv')
next
  case (snoc x xs)
  have "before @ d # xs @ [x] = (before @ d # xs) @ [x]" by simp
  with snoc show ?case
    by (simp only: decoratorConfigs_snoc AList.update_conv') auto
qed

lemma decorator_fields_record:
  assumes "map_of (decoratorConfigs st (class_id node) (with_nodes classInfo)) k = Some v"
  shows "(''flamework:decorators.'' @ k, v) \<in> set (decorator_fields st node classInfo)"
proof -
  from assms have "(k, v) \<in> set (decoratorConfigs st (class_id node) (with_nodes classInfo))"
    by (rule map_of_SomeD)
  then show ?thesis
    by (force simp: decorator_fields_def Let_def)
qed

section \<open>Auxiliary facts about the configuration builder\<close>

lemma merged_attributes:
  assumes "attributes = None \<or> (\<exists>a. attributes = Some a \<and> elem_named ''attributes'' a)"
  shows "\<exists>n es0. (case attributes of
              Some (PropertyAssignment n (ObjectLit ps)) \<Rightarrow>
                rest @ [PropertyAssignment n (ObjectLit (ps @ guards))]
            | _ \<Rightarrow> rest @ [PropertyAssignment (Identifier ''attributes'') (ObjectLit guards)])
          = rest @ [PropertyAssignment n (ObjectLit (es0 @ guards))]
        \<and> name_text n = Some ''attributes''"
    (is "\<exists>n es0. ?merged = _ n es0 \<and> _ n")
proof -
  have fresh: ?thesis
    if "?merged = rest @ [PropertyAssignment (Identifier ''attributes'') (ObjectLit guards)]"
    using that
    by (intro exI[of _ "Identifier ''attributes''"] exI[of _ "[]"]) simp
  show ?thesis
  proof (cases attributes)
    case None
    then show ?thesis by (intro fresh) simp
  next
    case (Some a)
    with assms have named: "elem_named ''attributes'' a" by simp
    show ?thesis
    proof (cases a)
      case (PropertyAssignment n e)
      with named have n: "name_text n = Some ''attributes''"
        by (simp add: elem_named_def)
      show ?thesis
      proof (cases e)
        case (ObjectLit ps)
        with Some PropertyAssignment n show ?thesis
          by (intro exI[of _ n] exI[of _ ps]) simp
      qed (use Some PropertyAssignment in \<open>(intro fresh, simp)+\<close>)
    next
      case (OtherElement x)
      with Some show ?thesis by (intro fresh) simp
    qed
  qed
qed

lemma updateAttributeGuards_guards:
  assumes "getProperty st (getTypeAtLocation st node) ''attributes'' = Some property"
    and "symbolParent st property = baseComponent st"
  shows "\<exists>n es0. updateAttributeGuards st node properties =
       Some ((case find (elem_named ''attributes'') properties of
                None \<Rightarrow> properties | Some a \<Rightarrow> remove1 a properties)
             @ [PropertyAssignment n (ObjectLit (es0 @ map guard_assignment
                  (filter (\<lambda>x. fst x \<notin> calculateOmittedGuards st node
                       (find (elem_named ''attributes'') properties))
                     (buildGuardsFromType st (getTypeOfSymbolAtLocation st property node)))))])
     \<and> name_text n = Some ''attributes''"
proof -
  have found: "find (elem_named ''attributes'') properties = None
      \<or> (\<exists>a. find (elem_named ''attributes'') properties = Some a \<and> elem_named ''attributes'' a)"
    by (cases "find (elem_named ''attributes'') properties") (auto simp: find_Some_iff)
  have "updateAttributeGuards st node properties = Some (case find (elem_named ''attributes'') properties of
        Some (PropertyAssignment n (ObjectLit es)) \<Rightarrow>
          (case find (elem_named ''attributes'') properties of
                         None \<Rightarrow> properties | Some a \<Rightarrow> remove1 a properties)
          @ [PropertyAssignment n (ObjectLit (es @ map guard_assignment
               (filter (\<lambda>x. fst x \<notin> calculateOmittedGuards st node
                   (find (elem_named ''attributes'') properties))
                 (buildGuardsFromType st (getTypeOfSymbolAtLocation st property node)))))]
      | _ \<Rightarrow> (case find (elem_named ''attributes'') properties of
                         None \<Rightarrow> properties | Some a \<Rightarrow> remove1 a properties)
          @ [PropertyAssignment (Identifier ''attributes'') (ObjectLit (map guard_assignment
               (filter (\<lambda>x. fst x \<notin> calculateOmittedGuards st node
                   (find (elem_named ''attributes'') properties))
                 (buildGuardsFromType st (getTypeOfSymbolAtLocation st property node)))))])"
    unfolding updateAttributeGuards_def Let_def
    by (simp only: assms option.case if_False simp_thms)
  with merged_attributes[OF found] show ?thesis
    by (simp only: option.inject)
qed

lemma updateAttributeGuards_result:
  assumes "updateAttributeGuards st node properties = Some ps"
  shows "\<exists>n es. ps = (case find (elem_named ''attributes'') properties of
                         None \<Rightarrow> properties | Some a \<Rightarrow> remove1 a properties)
                       @ [PropertyAssignment n (ObjectLit es)]
     \<and> name_text n = Some ''attributes''"
proof -
  from assms obtain property where
    "getProperty st (getTypeAtLocation st node) ''attributes'' = Some property"
    and "symbolParent st property = baseComponent st"
    by (auto simp: updateAttributeGuards_def split: option.splits if_splits)
  from updateAttributeGuards_guards[OF this, of properties] assms show ?thesis
    by auto
qed

lemma find_remove1_other:
  assumes "find P xs = Some a" and "\<not> Q a"
  shows "find Q (remove1 a xs) = None \<longleftrightarrow> find Q xs = None"
proof -
  have "set xs - {a} \<subseteq> set (remove1 a xs)"
    by (induction xs) auto
  moreover have "set (remove1 a xs) \<subseteq> set xs"
    by (rule set_remove1_subset)
  ultimately show ?thesis
    using assms(2) by (auto simp: find_None_iff)
qed

lemma find_holds: "find P xs = Some a \<Longrightarrow> P a"
  by (induction xs) (simp_all split: if_splits)

lemma find_snoc_other:
  "\<not> Q x \<Longrightarrow> find Q (xs @ [x]) = None \<longleftrightarrow> find Q xs = None"
  by (induction xs) simp_all

lemma updateAttributeGuards_instanceGuard:
  assumes "updateAttributeGuards st node properties = Some ps"
  shows "find (elem_named ''instanceGuard'') ps = None
     \<longleftrightarrow> find (elem_named ''instanceGuard'') properties = None"
proof -
  define rest where "rest = (case find (elem_named ''attributes'') properties of
                         None \<Rightarrow> properties | Some a \<Rightarrow> remove1 a properties)"
  from updateAttributeGuards_result[OF assms]
  obtain n es where ps: "ps = rest @ [PropertyAssignment n (ObjectLit es)]"
    and n: "name_text n = Some ''attributes''"
    unfolding rest_def by blast
  have new: "\<not> elem_named ''instanceGuard'' (PropertyAssignment n (ObjectLit es))"
    using n by (simp add: elem_named_def)
  have rest: "find (elem_named ''instanceGuard'') rest = None
     \<longleftrightarrow> find (elem_named ''instanceGuard'') properties = None"
  proof (cases "find (elem_named ''attributes'') properties")
    case None
    then show ?thesis by (simp add: rest_def)
  next
    case (Some a)
    then have "elem_named ''attributes'' a"
      by (rule find_holds)
    then have other: "\<not> elem_named ''instanceGuard'' a"
      by (cases "elem_name a") (simp_all add: elem_named_def)
    have r: "rest = remove1 a properties"
      using Some by (simp add: rest_def)
    show ?thesis
      unfolding r
      by (rule find_remove1_other[where Q = "elem_named ''instanceGuard''", OF Some other])
  qed
  show ?thesis
    by (simp only: ps rest
        find_snoc_other[where Q = "elem_named ''instanceGuard''", OF new])
qed

lemma updateInstanceGuard_result:
  assumes "getProperty st (getTypeAtLocation st node) ''instance'' = Some property"
    and "symbolParent st property = baseComponent st"
    and "getSuperClasses st node = superClass # others"
    and "getProperty st (getTypeAtLocation st superClass) ''instance'' = Some superProperty"
    and "find (elem_named ''instanceGuard'') properties = None"
  shows "updateInstanceGuard st node properties =
     (if \<not> isTypeAssignableTo st (getTypeOfSymbolAtLocation st superProperty superClass)
                (getTypeOfSymbolAtLocation st property node)
      then Some (properties @ [PropertyAssignment (Identifier ''instanceGuard'')
                  (buildGuardFromType st (getTypeOfSymbolAtLocation st property node))])
      else Some properties)"
  unfolding updateInstanceGuard_def Let_def
  by (simp only: assms option.case list.case if_False simp_thms)

lemma calculateOmittedGuards_both:
  assumes "getProperty st (getTypeAtLocation st cls) ''attributes'' = Some property"
    and "getSuperClasses st cls = superClass # others"
    and "getProperty st (getTypeAtLocation st superClass) ''attributes'' = Some superProperty"
  shows "calculateOmittedGuards st cls custom =
     custom_names custom \<union>
     same_type_names st (getTypeOfSymbolAtLocation st property cls)
       (getTypeOfSymbolAtLocation st superProperty superClass)"
  unfolding calculateOmittedGuards_def Let_def
  by (simp only: assms option.case list.case)

lemma same_type_names_iff:
  assumes "getTypeOfPropertyOfType st attrs name = Some t"
    and "getTypeOfPropertyOfType st superAttrs name = Some t'"
  shows "name \<in> same_type_names st attrs superAttrs \<longleftrightarrow>
     name \<in> set (getProperties st superAttrs) \<and> t' = t"
  by (simp add: same_type_names_def assms)

lemmas config_defs = generateFlameworkConfig_def updateComponentConfig_def
  updateAttributeGuards_def updateInstanceGuard_def calculateOmittedGuards_def
  same_type_names_def guard_assignment_def elem_named_def

section \<open>Auxiliary facts about the rewriter\<close>

lemmas rewriter_defs = rewrite_members_def memberIndexMapping_def validator_def
  hoist_constructor_def rewrite_constructor_def install_onStart_def member_named_def
  internalProp_def

lemma implementClauses_component:
  assumes "list_ex is_component (decorators classInfo)"
    and "getUid st (onStartDeclaration st) \<notin> set (concat (map (clause_implements st) clauses))"
  shows "implementClauses st node classInfo clauses =
     (case find (member_named ''onStart'') (members node) of
        Some existingOnStart \<Rightarrow> Inl OnStartMember
      | None \<Rightarrow> Inr (concat (map (clause_implements st) clauses)
                       @ [getUid st (onStartDeclaration st)]))"
  using assms by (simp add: implementClauses_def Let_def list_ex_iff)



text \<open>When the validator of the field at index \<open>i\<close> raises on a node.\<close>

lemma validator_raises_iff:
  "validator st mapping i n = Some e \<longleftrightarrow>
     (\<exists>symbol j. getSymbol st (ident n) = Some symbol \<and> mapping symbol = Some j
        \<and> j \<noteq> 0 \<and> i \<le> j \<and> e = UsedBeforeInitialization (symbol_name symbol))"
  by (auto simp: validator_def split: option.splits)



text \<open>A class whose first constructor declaration is a signature: the rewriter throws.\<close>

lemma overloaded_constructor_throws:
  "updateClass (demo_state component_info)
      (component_class None [overloaded_constructor, demo_constructor]) [component_decorator]
     = Inl TypeError"
  by (simp add: updateClass_def is_component_def rewriter_defs demo_defs Let_def)

section \<open>Uniqueness of the metadata keys\<close>

text \<open>
  Claim C9. Whenever a class is processed and its metadata is emitted, no key occurs twice
  among the records: \<open>identifier\<close>, the external flag, \<open>dependencies\<close>, \<open>implements\<close> and
  \<open>decorators\<close> occur at most once, and the keys \<open>decorators.<uid>\<close> are pairwise
  different, also when one decorator declaration is applied several times (the
  configurations are collected in a map keyed by the uid).
\<close>

theorem metadata_keys_unique:
  assumes "transformClassDeclaration st node = Inr (Emitted ms fs)"
  shows "distinct (map fst fs)"
  using assms by (elim transform_emitted) (rule metadata_fields_distinct)

text \<open>The decorator \<open>Custom\<close> applied twice: one record \<open>decorators.Custom\<close>.\<close>

theorem metadata_keys_unique_witness:
  "transformClassDeclaration (demo_state twice_info) plain_class =
     Inr (Emitted []
       [(''identifier'', StringLit ''C''),
        (''flamework:isExternal'', BoolLit False),
        (''flamework:decorators'', ArrayLit [StringLit ''Custom'', StringLit ''Custom'']),
        (''flamework:decorators.Custom'',
           ObjectLit [PropertyAssignment (Identifier ''type'') (StringLit ''Arbitrary''),
                      PropertyAssignment (Identifier ''arguments'') (ArrayLit [StringLit ''two''])])])
   \<and> distinct [''identifier'', ''flamework:isExternal'', ''flamework:decorators'',
        ''flamework:decorators.Custom'']"
proof -
  have h: "transformClassDeclaration (demo_state twice_info) plain_class =
     Inr (Emitted []
       [(''identifier'', StringLit ''C''),
        (''flamework:isExternal'', BoolLit False),
        (''flamework:decorators'', ArrayLit [StringLit ''Custom'', StringLit ''Custom'']),
        (''flamework:decorators.Custom'',
           ObjectLit [PropertyAssignment (Identifier ''type'') (StringLit ''Arbitrary''),
                      PropertyAssignment (Identifier ''arguments'') (ArrayLit [StringLit ''two''])])])"
    by (simp add: synth_defs demo_defs)
  from metadata_keys_unique[OF h] h show ?thesis by simp
qed

section \<open>Which records are emitted\<close>



section \<open>Constructor dependencies\<close>

text \<open>
  Claim C7. Let a processed class have a constructor with at least one parameter. The
  first parameter that does not resolve ends the transform, which returns nothing: with
  the diagnostic \<open>Expected type reference\<close> when its type is not a type reference, with
  \<open>Could not find declaration\<close> when it is a reference whose name has no declaration;
  so some unresolved parameter always gives one of the two. If every parameter resolves,
  neither diagnostic is raised, the record \<open>flamework:dependencies\<close> with the uids of the
  parameters' declarations in the order of the parameters is pushed, and whenever the
  transform returns it is the third record.
\<close>

theorem constructor_dependencies_or_diagnostic:
  assumes "getSymbol st (class_id node) = Some symbol" and "class_name node = Some name"
    and "classes st symbol = Some classInfo"
    and "find is_constructor (members node) = Some (Constructor params body)"
    and "params \<noteq> []"
  shows "(\<forall>before p after.
            params = before @ p # after \<and> (\<forall>q\<in>set before. param_declaration st q \<noteq> None)
            \<and> param_declaration st p = None \<longrightarrow>
            transformClassDeclaration st node =
              Inl (if is_reference_type (param_type p) then CouldNotFindDeclaration
                   else ExpectedTypeReference))
     \<and> ((\<exists>p\<in>set params. param_declaration st p = None) \<longrightarrow>
            transformClassDeclaration st node = Inl ExpectedTypeReference
            \<or> transformClassDeclaration st node = Inl CouldNotFindDeclaration)
     \<and> ((\<forall>p\<in>set params. param_declaration st p \<noteq> None) \<longrightarrow>
            dependency_fields st node =
              Inr [(''flamework:dependencies'',
                    ArrayLit (map (\<lambda>p. StringLit (getUid st (the (param_declaration st p))))
                                params))]
            \<and> transformClassDeclaration st node \<noteq> Inl ExpectedTypeReference
            \<and> transformClassDeclaration st node \<noteq> Inl CouldNotFindDeclaration
            \<and> (\<forall>r. transformClassDeclaration st node = Inr r \<longrightarrow>
                 (\<exists>ms fs. r = Emitted ms fs
                    \<and> fs ! 2 = (''flamework:dependencies'',
                         ArrayLit (map (\<lambda>p. StringLit (getUid st (the (param_declaration st p))))
                                     params)))))"
proof (intro conjI)
  show "\<forall>before p after.
            params = before @ p # after \<and> (\<forall>q\<in>set before. param_declaration st q \<noteq> None)
            \<and> param_declaration st p = None \<longrightarrow>
            transformClassDeclaration st node =
              Inl (if is_reference_type (param_type p) then CouldNotFindDeclaration
                   else ExpectedTypeReference)"
  proof (intro allI impI)
    fix before p after
    assume h: "params = before @ p # after \<and> (\<forall>q\<in>set before. param_declaration st q \<noteq> None)
              \<and> param_declaration st p = None"
    then have "constructorDependencies st params =
       Inl (if is_reference_type (param_type p) then CouldNotFindDeclaration
            else ExpectedTypeReference)"
      using constructorDependencies_first_failure[of before st p after] by simp
    then have "dependency_fields st node =
       Inl (if is_reference_type (param_type p) then CouldNotFindDeclaration
            else ExpectedTypeReference)"
      using assms(4) by (simp add: dependency_fields_def)
    then show "transformClassDeclaration st node =
                Inl (if is_reference_type (param_type p) then CouldNotFindDeclaration
                     else ExpectedTypeReference)"
      by (simp add: transform_processed[OF assms(1-3)] metadata_fields_def)
  qed
  show "(\<exists>p\<in>set params. param_declaration st p = None) \<longrightarrow>
            transformClassDeclaration st node = Inl ExpectedTypeReference
            \<or> transformClassDeclaration st node = Inl CouldNotFindDeclaration"
  proof
    assume "\<exists>p\<in>set params. param_declaration st p = None"
    from constructorDependencies_unresolved[OF this]
    have "dependency_fields st node = Inl ExpectedTypeReference
        \<or> dependency_fields st node = Inl CouldNotFindDeclaration"
      using assms(4) by (auto simp: dependency_fields_def)
    then show "transformClassDeclaration st node = Inl ExpectedTypeReference
              \<or> transformClassDeclaration st node = Inl CouldNotFindDeclaration"
      by (auto simp: transform_processed[OF assms(1-3)] metadata_fields_def)
  qed
  show "(\<forall>p\<in>set params. param_declaration st p \<noteq> None) \<longrightarrow>
            dependency_fields st node =
              Inr [(''flamework:dependencies'',
                    ArrayLit (map (\<lambda>p. StringLit (getUid st (the (param_declaration st p))))
                                params))]
            \<and> transformClassDeclaration st node \<noteq> Inl ExpectedTypeReference
            \<and> transformClassDeclaration st node \<noteq> Inl CouldNotFindDeclaration
            \<and> (\<forall>r. transformClassDeclaration st node = Inr r \<longrightarrow>
                 (\<exists>ms fs. r = Emitted ms fs
                    \<and> fs ! 2 = (''flamework:dependencies'',
                         ArrayLit (map (\<lambda>p. StringLit (getUid st (the (param_declaration st p))))
                                     params))))"
  proof (intro impI conjI)
    assume ok: "\<forall>p\<in>set params. param_declaration st p \<noteq> None"
    have d: "dependency_fields st node = Inr [(''flamework:dependencies'',
        ArrayLit (map StringLit (map (\<lambda>p. getUid st (the (param_declaration st p))) params)))]"
      using assms(4,5) by (simp add: dependency_fields_def constructorDependencies_resolved[OF ok])
    show "dependency_fields st node =
                Inr [(''flamework:dependencies'',
                      ArrayLit (map (\<lambda>p. StringLit (getUid st (the (param_declaration st p))))
                                  params))]"
      by (simp add: d comp_def)
    show "transformClassDeclaration st node \<noteq> Inl ExpectedTypeReference"
      by (auto simp: transform_processed[OF assms(1-3)] metadata_fields_def d implements_fields_def
          split: sum.splits option.splits
          dest: implementClauses_diagnostics updateClass_diagnostics)
    show "transformClassDeclaration st node \<noteq> Inl CouldNotFindDeclaration"
      by (auto simp: transform_processed[OF assms(1-3)] metadata_fields_def d implements_fields_def
          split: sum.splits option.splits
          dest: implementClauses_diagnostics updateClass_diagnostics)
    show "\<forall>r. transformClassDeclaration st node = Inr r \<longrightarrow>
                   (\<exists>ms fs. r = Emitted ms fs
                      \<and> fs ! 2 = (''flamework:dependencies'',
                           ArrayLit (map (\<lambda>p. StringLit (getUid st (the (param_declaration st p))))
                                       params)))"
      by (auto simp: transform_processed[OF assms(1-3)] metadata_fields_def d comp_def
          split: sum.splits)
  qed
qed

text \<open>
  A parameter without type annotation; a parameter whose type has no declaration, after
  one that resolves; and two parameters that resolve.
\<close>

theorem constructor_dependencies_or_diagnostic_witness:
  "transformClassDeclaration (demo_state service_info) untyped_class = Inl ExpectedTypeReference
   \<and> transformClassDeclaration (demo_state service_info) unresolved_class
        = Inl CouldNotFindDeclaration
   \<and> (\<exists>ms fs. transformClassDeclaration (demo_state service_info) (service_class None)
          = Inr (Emitted ms fs)
        \<and> fs ! 2 = (''flamework:dependencies'', ArrayLit [StringLit ''Logger'', StringLit ''Store'']))"
proof -
  let ?st = "demo_state service_info"
  let ?p = "\<lparr> param_name = BindingIdentifier (Named ''x''), param_type = None,
              param_node = Node OtherKind 60 [] \<rparr>"
  have a: "getSymbol ?st (class_id untyped_class) = Some (Symbol 1 ''s'')"
    by (simp add: demo_defs)
  have b: "class_name untyped_class = Some ''C''"
    by (simp add: demo_defs)
  have c: "classes ?st (Symbol 1 ''s'') = Some service_info"
    by (simp add: demo_state_def)
  have d: "find is_constructor (members untyped_class) = Some (Constructor [?p] (Some []))"
    by (simp add: demo_defs)
  have e: "[?p] \<noteq> []"
    by simp
  have bad: "[?p] = [] @ ?p # [] \<and> (\<forall>q\<in>set []. param_declaration ?st q \<noteq> None)
      \<and> param_declaration ?st ?p = None"
    by (simp add: param_declaration_def)
  have kind: "\<not> is_reference_type (param_type ?p)"
    by simp
  let ?u = unresolved_class
  let ?l = "demo_parameter ''logger'' 11"
  let ?g = "demo_parameter ''ghost'' 0"
  have au: "getSymbol ?st (class_id ?u) = Some (Symbol 1 ''s'')"
    by (simp add: demo_defs unresolved_class_def)
  have bu: "class_name ?u = Some ''C''"
    by (simp add: unresolved_class_def)
  have du: "find is_constructor (members ?u) = Some (Constructor [?l, ?g] (Some []))"
    by (simp add: unresolved_class_def)
  have eu: "[?l, ?g] \<noteq> []"
    by simp
  have l: "param_declaration ?st ?l = Some 11"
    by (simp add: param_declaration_def first_declaration_def demo_defs)
  have g: "param_declaration ?st ?g = None"
    by (simp add: param_declaration_def first_declaration_def demo_defs)
  have gu: "[?l, ?g] = [?l] @ ?g # [] \<and> (\<forall>q\<in>set [?l]. param_declaration ?st q \<noteq> None)
      \<and> param_declaration ?st ?g = None"
    using l g by simp
  have gk: "is_reference_type (param_type ?g)"
    by (simp add: demo_parameter_def)
  let ?c = "service_class None"
  let ?ps = "[demo_parameter ''logger'' 11, demo_parameter ''store'' 12]"
  have a': "getSymbol ?st (class_id ?c) = Some (Symbol 1 ''s'')"
    by (simp add: demo_defs)
  have b': "class_name ?c = Some ''C''"
    by (simp add: demo_defs)
  have d': "find is_constructor (members ?c) = Some (Constructor ?ps (Some []))"
    by (simp add: service_class_def)
  have e': "?ps \<noteq> []"
    by simp
  have s: "param_declaration ?st (demo_parameter ''store'' 12) = Some 12"
    by (simp add: param_declaration_def first_declaration_def demo_defs)
  have h: "transformClassDeclaration ?st ?c = Inr (Emitted (members ?c)
       [(''identifier'', StringLit ''C''),
        (''flamework:isExternal'', BoolLit False),
        (''flamework:dependencies'', ArrayLit [StringLit ''Logger'', StringLit ''Store'']),
        (''flamework:decorators'', ArrayLit [StringLit ''Service'']),
        (''flamework:decorators.Service'',
           ObjectLit [PropertyAssignment (Identifier ''type'') (StringLit ''Service'')])])"
    by (simp add: synth_defs demo_defs)
  from constructor_dependencies_or_diagnostic[OF a b c d e, THEN conjunct1, rule_format, OF bad]
  have first: "transformClassDeclaration ?st untyped_class = Inl ExpectedTypeReference"
    by (simp only: kind if_False)
  from constructor_dependencies_or_diagnostic[OF au bu c du eu, THEN conjunct1, rule_format, OF gu]
  have second: "transformClassDeclaration ?st unresolved_class = Inl CouldNotFindDeclaration"
    by (simp only: gk if_True)
  from constructor_dependencies_or_diagnostic[OF a' b' c d' e', THEN conjunct2, THEN conjunct2]
    l s h
  have "\<exists>ms fs. Emitted (members ?c)
       [(''identifier'', StringLit ''C''),
        (''flamework:isExternal'', BoolLit False),
        (''flamework:dependencies'', ArrayLit [StringLit ''Logger'', StringLit ''Store'']),
        (''flamework:decorators'', ArrayLit [StringLit ''Service'']),
        (''flamework:decorators.Service'',
           ObjectLit [PropertyAssignment (Identifier ''type'') (StringLit ''Service'')])] = Emitted ms fs
     \<and> fs ! 2 = (''flamework:dependencies'',
                         ArrayLit (map (\<lambda>p. StringLit (getUid ?st (the (param_declaration ?st p))))
                                     ?ps))"
    by simp
  then have third: "\<exists>ms fs. transformClassDeclaration ?st ?c = Inr (Emitted ms fs)
        \<and> fs ! 2 = (''flamework:dependencies'', ArrayLit [StringLit ''Logger'', StringLit ''Store''])"
    using h l s by (simp add: demo_state_def demo_uid_def)
  from first second third show ?thesis by blast
qed

section \<open>The order of the records\<close>

text \<open>
  With an \<open>implements\<close> clause the record \<open>flamework:implements\<close> stands between
  \<open>flamework:dependencies\<close> and \<open>flamework:decorators\<close>: the class has a constructor of
  two parameters and the one decorator \<open>Service\<close>, and implements \<open>OnInit\<close>.
\<close>

theorem record_order_counterexample:
  "emitted_keys (transformClassDeclaration (demo_state service_info)
      (service_class (Some implements_OnInit))) =
     [''identifier'', ''flamework:isExternal'', ''flamework:dependencies'',
      ''flamework:implements'', ''flamework:decorators'', ''flamework:decorators.Service'']"
  by (simp add: emitted_keys_def synth_defs demo_defs)

text \<open>
  Claim C3, as amended. For a processed class with a constructor of two parameters that
  both resolve, with exactly one decorator, which is a Flamework decorator of kind
  \<open>WithNodes\<close>, and for which no interface is collected (no \<open>flamework:implements\<close>
  record), the emitted records are, in this order: \<open>identifier\<close>,
  \<open>flamework:isExternal\<close>, \<open>flamework:dependencies\<close> with two uids,
  \<open>flamework:decorators\<close> with one uid, and one record \<open>flamework:decorators.<uid>\<close>
  holding the configuration.
\<close>

theorem record_order_without_implements:
  assumes "getSymbol st (class_id node) = Some symbol" and "class_name node = Some name"
    and "classes st symbol = Some classInfo"
    and "find is_constructor (members node) = Some (Constructor [p1, p2] body)"
    and "param_declaration st p1 = Some d1" and "param_declaration st p2 = Some d2"
    and "decorators classInfo = [decorator]"
    and "dec_type decorator = WithNodes" and "isFlameworkDecorator decorator"
    and "implements_fields st node classInfo = Inr []"
    and "updateClass st node [decorator] = Inr ms"
  shows "transformClassDeclaration st node =
     Inr (Emitted ms
       [(''identifier'', StringLit (getUid st (class_id node))),
        (''flamework:isExternal'', BoolLit (isExternal classInfo)),
        (''flamework:dependencies'', ArrayLit [StringLit (getUid st d1), StringLit (getUid st d2)]),
        (''flamework:decorators'', ArrayLit [StringLit (getUid st (dec_declaration decorator))]),
        (''flamework:decorators.'' @ getUid st (dec_declaration decorator),
           generateFlameworkConfig st (class_id node) decorator
             (first_object (dec_arguments decorator)))])"
proof -
  have ok: "\<forall>p\<in>set [p1, p2]. param_declaration st p \<noteq> None"
    using assms(5,6) by simp
  have cd: "constructorDependencies st [p1, p2] = Inr [getUid st d1, getUid st d2]"
    using constructorDependencies_resolved[OF ok] assms(5,6) by simp
  have d: "dependency_fields st node = Inr [(''flamework:dependencies'',
      ArrayLit [StringLit (getUid st d1), StringLit (getUid st d2)])]"
    using assms(4) by (simp add: dependency_fields_def cd del: constructorDependencies.simps)
  have w: "with_nodes classInfo = [decorator]"
    using assms(7,8) by (simp add: with_nodes_def)
  have f: "decorator_fields st node classInfo =
      [(''flamework:decorators'', ArrayLit [StringLit (getUid st (dec_declaration decorator))]),
        (''flamework:decorators.'' @ getUid st (dec_declaration decorator),
           generateFlameworkConfig st (class_id node) decorator
             (first_object (dec_arguments decorator)))]"
    using assms(9) by (simp add: decorator_fields_def w decoratorConfigs_def decorator_config_def)
  show ?thesis
    using assms(10,11) by (simp add: transform_processed[OF assms(1-3)] metadata_fields_def d f w)
qed

text \<open>The same class without the \<open>implements\<close> clause.\<close>

theorem record_order_without_implements_witness:
  "transformClassDeclaration (demo_state service_info) (service_class None) =
     Inr (Emitted (members (service_class None))
       [(''identifier'', StringLit ''C''),
        (''flamework:isExternal'', BoolLit False),
        (''flamework:dependencies'', ArrayLit [StringLit ''Logger'', StringLit ''Store'']),
        (''flamework:decorators'', ArrayLit [StringLit ''Service'']),
        (''flamework:decorators.Service'',
           ObjectLit [PropertyAssignment (Identifier ''type'') (StringLit ''Service'')])])"
proof -
  let ?st = "demo_state service_info"
  let ?c = "service_class None"
  have a: "getSymbol ?st (class_id ?c) = Some (Symbol 1 ''s'')"
    by (simp add: demo_defs)
  have b: "class_name ?c = Some ''C''"
    by (simp add: demo_defs)
  have c: "classes ?st (Symbol 1 ''s'') = Some service_info"
    by (simp add: demo_state_def)
  have d: "find is_constructor (members ?c) =
      Some (Constructor [demo_parameter ''logger'' 11, demo_parameter ''store'' 12] (Some []))"
    by (simp add: service_class_def)
  have l: "param_declaration ?st (demo_parameter ''logger'' 11) = Some 11"
    by (simp add: param_declaration_def first_declaration_def demo_defs)
  have s: "param_declaration ?st (demo_parameter ''store'' 12) = Some 12"
    by (simp add: param_declaration_def first_declaration_def demo_defs)
  have e: "decorators service_info = [service_decorator]"
    by (simp add: service_info_def)
  have f: "dec_type service_decorator = WithNodes"
    by (simp add: service_decorator_def)
  have g: "isFlameworkDecorator service_decorator"
    by (simp add: service_decorator_def)
  have i: "implements_fields ?st ?c service_info = Inr []"
    by (simp add: implements_fields_def service_class_def)
  have u: "updateClass ?st ?c [service_decorator] = Inr (members ?c)"
    by (simp add: updateClass_def is_component_def service_decorator_def)
  show ?thesis
    by (subst record_order_without_implements[OF a b c d l s e f g i u])
       (simp add: demo_defs generateFlameworkConfig_def)
qed

section \<open>The configuration of a decorator that is not Flamework's\<close>

text \<open>
  The record of such a decorator has the keys \<open>type\<close> and \<open>arguments\<close>; no key is
  named \<open>kind\<close>. Here the decorator \<open>Custom\<close> with two arguments.
\<close>

theorem arbitrary_decorator_config_counterexample:
  "decorator_config (demo_state plain_info) 1 (custom_decorator [StringLit ''one'', StringLit ''two''])
     = ObjectLit [PropertyAssignment (Identifier ''type'') (StringLit ''Arbitrary''),
                  PropertyAssignment (Identifier ''arguments'')
                    (ArrayLit [StringLit ''one'', StringLit ''two''])]
   \<and> find (elem_named ''kind'')
        [PropertyAssignment (Identifier ''type'') (StringLit ''Arbitrary''),
         PropertyAssignment (Identifier ''arguments'')
           (ArrayLit [StringLit ''one'', StringLit ''two''])] = None"
  by (simp add: decorator_config_def custom_decorator_def elem_named_def)

text \<open>
  Claim C4, as amended. For every decorator that is not Flamework's, the configuration is
  the object \<open>{type: "Arbitrary", arguments: [...]}\<close> holding the argument expressions as
  they are, with no \<open>attributes\<close> or \<open>instanceGuard\<close> field; and when the class's metadata
  is emitted, the record under \<open>flamework:decorators.<uid>\<close> is exactly this object for
  the last decorator applied with that uid.
\<close>

theorem arbitrary_decorator_config:
  assumes "transformClassDeclaration st node = Inr (Emitted ms fs)"
    and "getSymbol st (class_id node) = Some symbol" and "classes st symbol = Some classInfo"
    and "with_nodes classInfo = before @ decorator # after"
    and "\<not> isFlameworkDecorator decorator"
    and "\<forall>d\<in>set after. getUid st (dec_declaration d) \<noteq> getUid st (dec_declaration decorator)"
  shows "decorator_config st (class_id node) decorator =
       ObjectLit [PropertyAssignment (Identifier ''type'') (StringLit ''Arbitrary''),
                  PropertyAssignment (Identifier ''arguments'') (ArrayLit (dec_arguments decorator))]
     \<and> (\<forall>v. (''flamework:decorators.'' @ getUid st (dec_declaration decorator), v) \<in> set fs
           \<longleftrightarrow> v = ObjectLit [PropertyAssignment (Identifier ''type'') (StringLit ''Arbitrary''),
                  PropertyAssignment (Identifier ''arguments'')
                    (ArrayLit (dec_arguments decorator))])"
proof -
  let ?k = "''flamework:decorators.'' @ getUid st (dec_declaration decorator)"
  let ?v = "ObjectLit [PropertyAssignment (Identifier ''type'') (StringLit ''Arbitrary''),
                  PropertyAssignment (Identifier ''arguments'') (ArrayLit (dec_arguments decorator))]"
  have cfg: "decorator_config st (class_id node) decorator = ?v"
    using assms(5) by (simp add: decorator_config_def)
  from assms(1) obtain symbol' classInfo' where "getSymbol st (class_id node) = Some symbol'"
    and "classes st symbol' = Some classInfo'"
    and "metadata_fields st node classInfo' = Inr fs"
    by (rule transform_emitted)
  with assms(2,3) have m: "metadata_fields st node classInfo = Inr fs"
    by simp
  from m obtain deps impl where fs: "fs = (''identifier'', StringLit (getUid st (class_id node)))
            # (''flamework:isExternal'', BoolLit (isExternal classInfo))
            # deps @ impl @ decorator_fields st node classInfo"
    by (rule metadata_fields_keys)
  have "map_of (decoratorConfigs st (class_id node) (with_nodes classInfo))
      (getUid st (dec_declaration decorator)) = Some ?v"
    unfolding assms(4) using decoratorConfigs_last[OF assms(6)] cfg by simp
  then have "(?k, ?v) \<in> set (decorator_fields st node classInfo)"
    by (rule decorator_fields_record)
  then have mem: "(?k, ?v) \<in> set fs"
    unfolding fs by simp
  have dist: "distinct (map fst fs)"
    using m by (rule metadata_fields_distinct)
  have "\<And>v. (?k, v) \<in> set fs \<Longrightarrow> v = ?v"
    using mem dist by (meson eq_key_imp_eq_value)
  with mem cfg show ?thesis by blast
qed

text \<open>The decorator \<open>Custom\<close> applied twice: the record holds the second application.\<close>

theorem arbitrary_decorator_config_witness:
  "\<not> isFlameworkDecorator (custom_decorator [StringLit ''two''])
   \<and> (\<forall>v. (''flamework:decorators.Custom'', v) \<in> set
       [(''identifier'', StringLit ''C''),
        (''flamework:isExternal'', BoolLit False),
        (''flamework:decorators'', ArrayLit [StringLit ''Custom'', StringLit ''Custom'']),
        (''flamework:decorators.Custom'',
           ObjectLit [PropertyAssignment (Identifier ''type'') (StringLit ''Arbitrary''),
                      PropertyAssignment (Identifier ''arguments'') (ArrayLit [StringLit ''two''])])]
      \<longleftrightarrow> v = ObjectLit [PropertyAssignment (Identifier ''type'') (StringLit ''Arbitrary''),
                      PropertyAssignment (Identifier ''arguments'') (ArrayLit [StringLit ''two''])])"
proof -
  let ?st = "demo_state twice_info"
  have h: "transformClassDeclaration ?st plain_class =
     Inr (Emitted []
       [(''identifier'', StringLit ''C''),
        (''flamework:isExternal'', BoolLit False),
        (''flamework:decorators'', ArrayLit [StringLit ''Custom'', StringLit ''Custom'']),
        (''flamework:decorators.Custom'',
           ObjectLit [PropertyAssignment (Identifier ''type'') (StringLit ''Arbitrary''),
                      PropertyAssignment (Identifier ''arguments'') (ArrayLit [StringLit ''two''])])])"
    by (simp add: synth_defs demo_defs)
  have a: "getSymbol ?st (class_id plain_class) = Some (Symbol 1 ''s'')"
    by (simp add: demo_defs)
  have c: "classes ?st (Symbol 1 ''s'') = Some twice_info"
    by (simp add: demo_state_def)
  have w: "with_nodes twice_info =
      [custom_decorator [StringLit ''one'']] @ custom_decorator [StringLit ''two''] # []"
    by (simp add: with_nodes_def twice_info_def custom_decorator_def)
  have n: "\<not> isFlameworkDecorator (custom_decorator [StringLit ''two''])"
    by (simp add: custom_decorator_def)
  have l: "\<forall>d\<in>set []. getUid ?st (dec_declaration d)
      \<noteq> getUid ?st (dec_declaration (custom_decorator [StringLit ''two'']))"
    by simp
  have k: "''flamework:decorators.'' @ getUid ?st (dec_declaration (custom_decorator [StringLit ''two'']))
      = ''flamework:decorators.Custom''"
    by (simp add: demo_defs)
  have g: "dec_arguments (custom_decorator [StringLit ''two'']) = [StringLit ''two'']"
    by (simp add: custom_decorator_def)
  from arbitrary_decorator_config[OF h a c w n l] n show ?thesis
    unfolding k g by blast
qed

section \<open>The instance guard\<close>

text \<open>
  In the example the class's \<open>instance\<close> type is assignable to its superclass's, the
  class has a superclass and the author gave no \<open>instanceGuard\<close>; still the guard is
  added, since the superclass's type is not assignable to the class's.
\<close>

theorem instance_guard_counterexample:
  "isTypeAssignableTo (demo_state component_info)
     (getTypeOfSymbolAtLocation (demo_state component_info) (Symbol 41 ''instance'') 1)
     (getTypeOfSymbolAtLocation (demo_state component_info) (Symbol 42 ''instance'') 2)
   \<and> generateFlameworkConfig (demo_state component_info) 1 component_decorator [] =
       ObjectLit
         [PropertyAssignment (Identifier ''type'') (StringLit ''Component''),
          PropertyAssignment (Identifier ''attributes'')
            (ObjectLit [PropertyAssignment (StringLiteral ''x'') (StringLit ''gx''),
                        PropertyAssignment (StringLiteral ''z'') (StringLit ''gz'')]),
          PropertyAssignment (Identifier ''instanceGuard'') (StringLit ''guard'')]"
  by (simp add: config_defs demo_defs)

text \<open>
  Claim C1, as amended. For a component class whose \<open>instance\<close> property is the one
  declared by \<open>BaseComponent\<close>, with a superclass that has an \<open>instance\<close> property, and
  without an \<open>instanceGuard\<close> given by the author: if the superclass's instance type is
  assignable to the class's instance type, the configuration gets no \<open>instanceGuard\<close>
  field; otherwise the guard compiled from the class's instance type is appended as
  \<open>instanceGuard\<close>.
\<close>

theorem instance_guard_unless_super_assignable:
  assumes "dec_name decorator = ''Component''"
    and "getProperty st (getTypeAtLocation st node) ''instance'' = Some property"
    and "symbolParent st property = baseComponent st"
    and "getSuperClasses st node = superClass # others"
    and "getProperty st (getTypeAtLocation st superClass) ''instance'' = Some superProperty"
    and "find (elem_named ''instanceGuard'') config = None"
  shows "\<exists>props. generateFlameworkConfig st node decorator config =
        ObjectLit (PropertyAssignment (Identifier ''type'') (StringLit ''Component'') # props)
     \<and> (if isTypeAssignableTo st (getTypeOfSymbolAtLocation st superProperty superClass)
              (getTypeOfSymbolAtLocation st property node)
         then find (elem_named ''instanceGuard'') props = None
         else \<exists>others. props = others @ [PropertyAssignment (Identifier ''instanceGuard'')
                  (buildGuardFromType st (getTypeOfSymbolAtLocation st property node))]
                \<and> find (elem_named ''instanceGuard'') others = None)"
proof -
  define ps where "ps = (case updateAttributeGuards st node config of
                           None \<Rightarrow> config | Some ps \<Rightarrow> ps)"
  have none: "find (elem_named ''instanceGuard'') ps = None"
  proof (cases "updateAttributeGuards st node config")
    case None
    then show ?thesis using assms(6) by (simp add: ps_def)
  next
    case (Some qs)
    from updateAttributeGuards_instanceGuard[OF Some] assms(6) Some show ?thesis
      by (simp add: ps_def)
  qed
  have cfg: "updateComponentConfig st node config =
      (case updateInstanceGuard st node ps of None \<Rightarrow> ps | Some qs \<Rightarrow> qs)"
    unfolding updateComponentConfig_def ps_def Let_def by (rule refl)
  show ?thesis
  proof (cases "isTypeAssignableTo st (getTypeOfSymbolAtLocation st superProperty superClass)
                (getTypeOfSymbolAtLocation st property node)")
    case True
    then have "generateFlameworkConfig st node decorator config =
        ObjectLit (PropertyAssignment (Identifier ''type'') (StringLit ''Component'') # ps)"
      unfolding generateFlameworkConfig_def cfg updateInstanceGuard_result[OF assms(2-5) none]
      using assms(1) by simp
    with True none show ?thesis by simp
  next
    case False
    then have "generateFlameworkConfig st node decorator config =
        ObjectLit (PropertyAssignment (Identifier ''type'') (StringLit ''Component'')
          # ps @ [PropertyAssignment (Identifier ''instanceGuard'')
                  (buildGuardFromType st (getTypeOfSymbolAtLocation st property node))])"
      unfolding generateFlameworkConfig_def cfg updateInstanceGuard_result[OF assms(2-5) none]
      using assms(1) by simp
    with False none show ?thesis by simp
  qed
qed

text \<open>The example, and the example under a checker that accepts every assignment.\<close>

theorem instance_guard_unless_super_assignable_witness:
  "(\<exists>props. generateFlameworkConfig (demo_state component_info) 1 component_decorator [] =
        ObjectLit (PropertyAssignment (Identifier ''type'') (StringLit ''Component'') # props)
      \<and> (\<exists>others. props = others @ [PropertyAssignment (Identifier ''instanceGuard'')
                                         (StringLit ''guard'')]
            \<and> find (elem_named ''instanceGuard'') others = None))
   \<and> (\<exists>props. generateFlameworkConfig lenient_state 1 component_decorator [] =
        ObjectLit (PropertyAssignment (Identifier ''type'') (StringLit ''Component'') # props)
      \<and> find (elem_named ''instanceGuard'') props = None)"
proof -
  let ?st = "demo_state component_info"
  have n: "dec_name component_decorator = ''Component''"
    by (simp add: component_decorator_def)
  have e: "find (elem_named ''instanceGuard'') [] = None"
    by simp
  have a: "getProperty ?st (getTypeAtLocation ?st 1) ''instance'' = Some (Symbol 41 ''instance'')"
    by (simp add: demo_state_def)
  have b: "symbolParent ?st (Symbol 41 ''instance'') = baseComponent ?st"
    by (simp add: demo_state_def)
  have c: "getSuperClasses ?st 1 = 2 # []"
    by (simp add: demo_state_def)
  have d: "getProperty ?st (getTypeAtLocation ?st 2) ''instance'' = Some (Symbol 42 ''instance'')"
    by (simp add: demo_state_def)
  have no: "\<not> isTypeAssignableTo ?st (getTypeOfSymbolAtLocation ?st (Symbol 42 ''instance'') 2)
      (getTypeOfSymbolAtLocation ?st (Symbol 41 ''instance'') 1)"
    by (simp add: demo_state_def)
  have g: "buildGuardFromType ?st (getTypeOfSymbolAtLocation ?st (Symbol 41 ''instance'') 1)
      = StringLit ''guard''"
    by (simp add: demo_state_def)
  have a': "getProperty lenient_state (getTypeAtLocation lenient_state 1) ''instance''
      = Some (Symbol 41 ''instance'')"
    by (simp add: lenient_state_def demo_state_def)
  have b': "symbolParent lenient_state (Symbol 41 ''instance'') = baseComponent lenient_state"
    by (simp add: lenient_state_def demo_state_def)
  have c': "getSuperClasses lenient_state 1 = 2 # []"
    by (simp add: lenient_state_def demo_state_def)
  have d': "getProperty lenient_state (getTypeAtLocation lenient_state 2) ''instance''
      = Some (Symbol 42 ''instance'')"
    by (simp add: lenient_state_def demo_state_def)
  have yes: "isTypeAssignableTo lenient_state
      (getTypeOfSymbolAtLocation lenient_state (Symbol 42 ''instance'') 2)
      (getTypeOfSymbolAtLocation lenient_state (Symbol 41 ''instance'') 1)"
    by (simp add: lenient_state_def)
  from instance_guard_unless_super_assignable[OF n a b c d e] no g
  have first: "\<exists>props. generateFlameworkConfig ?st 1 component_decorator [] =
        ObjectLit (PropertyAssignment (Identifier ''type'') (StringLit ''Component'') # props)
      \<and> (\<exists>others. props = others @ [PropertyAssignment (Identifier ''instanceGuard'')
                                         (StringLit ''guard'')]
            \<and> find (elem_named ''instanceGuard'') others = None)"
    by (simp only: if_False)
  from instance_guard_unless_super_assignable[OF n a' b' c' d' e] yes
  have second: "\<exists>props. generateFlameworkConfig lenient_state 1 component_decorator [] =
        ObjectLit (PropertyAssignment (Identifier ''type'') (StringLit ''Component'') # props)
      \<and> find (elem_named ''instanceGuard'') props = None"
    by (simp only: if_True)
  from first second show ?thesis by (rule conjI)
qed

section \<open>The omitted attribute guards\<close>

text \<open>
  The attribute \<open>x\<close> has different types in the class's and the superclass's shape, and
  is omitted all the same when the author supplies a guard for it.
\<close>

theorem omitted_override_counterexample:
  "getTypeOfPropertyOfType (demo_state component_info)
      (getTypeOfSymbolAtLocation (demo_state component_info) (Symbol 43 ''attributes'') 1) ''x''
     = Some (TsType 201)
   \<and> getTypeOfPropertyOfType (demo_state component_info)
      (getTypeOfSymbolAtLocation (demo_state component_info) (Symbol 44 ''attributes'') 2) ''x''
     = Some (TsType 200)
   \<and> ''x'' \<in> calculateOmittedGuards (demo_state component_info) 1 (Some custom_attributes)"
  by (simp add: config_defs demo_defs)

text \<open>
  Claim C2, as amended. For a field name present in the attributes shape of the class and
  of its first superclass, \<^verbatim>\<open>calculateOmittedGuards\<close> includes the name exactly when the
  two field types are the same type of the checker (compared with \<^verbatim>\<open>===\<close>) or the
  author supplied a guard of that name. A field whose type differs from the superclass's
  and for which the author supplied no guard is not omitted: when \<open>attributes\<close> is the
  property declared by \<open>BaseComponent\<close>, the guard generated for it is in the
  \<open>attributes\<close> object of the configuration.
\<close>

theorem omitted_iff_same_type_or_custom:
  assumes "getProperty st (getTypeAtLocation st cls) ''attributes'' = Some property"
    and "getSuperClasses st cls = superClass # others"
    and "getProperty st (getTypeAtLocation st superClass) ''attributes'' = Some superProperty"
    and "attrs = getTypeOfSymbolAtLocation st property cls"
    and "superAttrs = getTypeOfSymbolAtLocation st superProperty superClass"
    and "name \<in> set (getProperties st superAttrs)"
    and "getTypeOfPropertyOfType st attrs name = Some t"
    and "getTypeOfPropertyOfType st superAttrs name = Some t'"
  shows "(name \<in> calculateOmittedGuards st cls custom \<longleftrightarrow> t' = t \<or> name \<in> custom_names custom)
     \<and> (t' \<noteq> t \<and> symbolParent st property = baseComponent st
          \<and> name \<notin> custom_names (find (elem_named ''attributes'') properties)
          \<and> (name, g) \<in> set (buildGuardsFromType st attrs)
        \<longrightarrow> (\<exists>rest n es. updateAttributeGuards st cls properties
                  = Some (rest @ [PropertyAssignment n (ObjectLit es)])
               \<and> name_text n = Some ''attributes''
               \<and> PropertyAssignment (StringLiteral name) g \<in> set es))"
proof (intro conjI impI)
  have omitted: "\<And>custom. name \<in> calculateOmittedGuards st cls custom
      \<longleftrightarrow> t' = t \<or> name \<in> custom_names custom"
    using assms(6) same_type_names_iff[OF assms(7,8)]
    unfolding calculateOmittedGuards_both[OF assms(1-3)] assms(4,5)
    by auto
  show "name \<in> calculateOmittedGuards st cls custom \<longleftrightarrow> t' = t \<or> name \<in> custom_names custom"
    by (rule omitted)
  assume h: "t' \<noteq> t \<and> symbolParent st property = baseComponent st
          \<and> name \<notin> custom_names (find (elem_named ''attributes'') properties)
          \<and> (name, g) \<in> set (buildGuardsFromType st attrs)"
  then have kept: "name \<notin> calculateOmittedGuards st cls (find (elem_named ''attributes'') properties)"
    by (simp add: omitted)
  from h have parent: "symbolParent st property = baseComponent st"
    by simp
  from updateAttributeGuards_guards[OF assms(1) parent, of properties]
  obtain n es0 where u: "updateAttributeGuards st cls properties =
       Some ((case find (elem_named ''attributes'') properties of
                None \<Rightarrow> properties | Some a \<Rightarrow> remove1 a properties)
             @ [PropertyAssignment n (ObjectLit (es0 @ map guard_assignment
                  (filter (\<lambda>x. fst x \<notin> calculateOmittedGuards st cls
                       (find (elem_named ''attributes'') properties))
                     (buildGuardsFromType st (getTypeOfSymbolAtLocation st property cls)))))])"
    and n: "name_text n = Some ''attributes''"
    by blast
  have "(name, g) \<in> set (filter (\<lambda>x. fst x \<notin> calculateOmittedGuards st cls
                       (find (elem_named ''attributes'') properties))
                     (buildGuardsFromType st (getTypeOfSymbolAtLocation st property cls)))"
    using h kept by (simp add: assms(4))
  then have "guard_assignment (name, g) \<in> set (es0 @ map guard_assignment
                  (filter (\<lambda>x. fst x \<notin> calculateOmittedGuards st cls
                       (find (elem_named ''attributes'') properties))
                     (buildGuardsFromType st (getTypeOfSymbolAtLocation st property cls))))"
    by (simp only: set_append set_map) blast
  then have "PropertyAssignment (StringLiteral name) g \<in> set (es0 @ map guard_assignment
                  (filter (\<lambda>x. fst x \<notin> calculateOmittedGuards st cls
                       (find (elem_named ''attributes'') properties))
                     (buildGuardsFromType st (getTypeOfSymbolAtLocation st property cls))))"
    by (simp only: guard_assignment_def fst_conv snd_conv)
  with u n show "\<exists>rest n es. updateAttributeGuards st cls properties
                  = Some (rest @ [PropertyAssignment n (ObjectLit es)])
               \<and> name_text n = Some ''attributes''
               \<and> PropertyAssignment (StringLiteral name) g \<in> set es"
    by blast
qed

text \<open>In the example \<open>x\<close> is narrowed and \<open>y\<close> is unchanged.\<close>

theorem omitted_iff_same_type_or_custom_witness:
  "''x'' \<notin> calculateOmittedGuards (demo_state component_info) 1 None
   \<and> ''y'' \<in> calculateOmittedGuards (demo_state component_info) 1 None
   \<and> (\<exists>rest n es. updateAttributeGuards (demo_state component_info) 1 []
          = Some (rest @ [PropertyAssignment n (ObjectLit es)])
        \<and> name_text n = Some ''attributes''
        \<and> PropertyAssignment (StringLiteral ''x'') (StringLit ''gx'') \<in> set es)"
proof -
  let ?st = "demo_state component_info"
  have a: "getProperty ?st (getTypeAtLocation ?st 1) ''attributes'' = Some (Symbol 43 ''attributes'')"
    by (simp add: demo_state_def)
  have b: "getSuperClasses ?st 1 = 2 # []"
    by (simp add: demo_state_def)
  have c: "getProperty ?st (getTypeAtLocation ?st 2) ''attributes'' = Some (Symbol 44 ''attributes'')"
    by (simp add: demo_state_def)
  have d: "TsType 143 = getTypeOfSymbolAtLocation ?st (Symbol 43 ''attributes'') 1"
    by (simp add: demo_state_def)
  have e: "TsType 144 = getTypeOfSymbolAtLocation ?st (Symbol 44 ''attributes'') 2"
    by (simp add: demo_state_def)
  have x: "''x'' \<in> set (getProperties ?st (TsType 144))"
    by (simp add: demo_state_def)
  have x1: "getTypeOfPropertyOfType ?st (TsType 143) ''x'' = Some (TsType 201)"
    by (simp add: demo_state_def)
  have x2: "getTypeOfPropertyOfType ?st (TsType 144) ''x'' = Some (TsType 200)"
    by (simp add: demo_state_def)
  have y: "''y'' \<in> set (getProperties ?st (TsType 144))"
    by (simp add: demo_state_def)
  have y1: "getTypeOfPropertyOfType ?st (TsType 143) ''y'' = Some (TsType 202)"
    by (simp add: demo_state_def)
  have y2: "getTypeOfPropertyOfType ?st (TsType 144) ''y'' = Some (TsType 202)"
    by (simp add: demo_state_def)
  have p: "symbolParent ?st (Symbol 43 ''attributes'') = baseComponent ?st"
    by (simp add: demo_state_def)
  have g: "(''x'', StringLit ''gx'') \<in> set (buildGuardsFromType ?st (TsType 143))"
    by (simp add: demo_state_def)
  have k: "''x'' \<notin> custom_names (find (elem_named ''attributes'') [])"
    by simp
  note X = omitted_iff_same_type_or_custom[OF a b c d e x x1 x2,
      where custom = None and properties = "[]" and g = "StringLit ''gx''"]
  note Y = omitted_iff_same_type_or_custom[OF a b c d e y y1 y2,
      where custom = None and properties = "[]" and g = "StringLit ''gy''"]
  from X have "''x'' \<notin> calculateOmittedGuards ?st 1 None"
    by simp
  moreover from Y have "''y'' \<in> calculateOmittedGuards ?st 1 None"
    by simp
  moreover from X p g k have "\<exists>rest n es. updateAttributeGuards ?st 1 []
          = Some (rest @ [PropertyAssignment n (ObjectLit es)])
        \<and> name_text n = Some ''attributes''
        \<and> PropertyAssignment (StringLiteral ''x'') (StringLit ''gx'') \<in> set es"
    by simp
  ultimately show ?thesis by blast
qed

section \<open>The lifecycle interface of a component\<close>

text \<open>
  A component class without any heritage clause: the block that injects \<open>OnStart\<close> is
  under \<^verbatim>\<open>if (node.heritageClauses)\<close> and does not run. No \<open>flamework:implements\<close> record
  is emitted, and a member named \<open>onStart\<close> raises nothing.
\<close>

theorem onStart_without_heritage_counterexample:
  "emitted_keys (transformClassDeclaration (demo_state component_info) (component_class None []))
     = [''identifier'', ''flamework:isExternal'', ''flamework:decorators'',
        ''flamework:decorators.Component'']
   \<and> emitted_keys (transformClassDeclaration (demo_state component_info)
        (component_class None [onStart_method]))
     = [''identifier'', ''flamework:isExternal'', ''flamework:decorators'',
        ''flamework:decorators.Component'']"
  by (simp add: emitted_keys_def synth_defs config_defs rewriter_defs demo_defs)

text \<open>
  Claim C8, as amended. For every processed class that has heritage clauses, carries the
  Flamework decorator \<open>Component\<close>, does not list the interface \<open>OnStart\<close> among the
  interfaces it implements, and whose constructor parameters raise no diagnostic: if the
  class declares a member named \<open>onStart\<close>, the transform ends with the diagnostic that a
  component can not have such a member; otherwise, whenever the transform returns, the
  record \<open>flamework:implements\<close> holds the declared interfaces followed by the uid of
  \<open>OnStart\<close>.
\<close>

theorem onStart_injected_or_collision:
  assumes "getSymbol st (class_id node) = Some symbol" and "class_name node = Some name"
    and "classes st symbol = Some classInfo"
    and "heritageClauses node = Some clauses"
    and "list_ex is_component (decorators classInfo)"
    and "getUid st (onStartDeclaration st) \<notin> set (concat (map (clause_implements st) clauses))"
    and "dependency_fields st node = Inr deps"
  shows "(find (member_named ''onStart'') (members node) \<noteq> None \<longrightarrow>
            transformClassDeclaration st node = Inl OnStartMember)
     \<and> (find (member_named ''onStart'') (members node) = None \<longrightarrow>
          (\<forall>r. transformClassDeclaration st node = Inr r \<longrightarrow>
             (\<exists>ms fs. r = Emitted ms fs
                \<and> (''flamework:implements'',
                     ArrayLit (map StringLit (concat (map (clause_implements st) clauses)
                                 @ [getUid st (onStartDeclaration st)]))) \<in> set fs)))"
proof (intro conjI impI)
  assume "find (member_named ''onStart'') (members node) \<noteq> None"
  then have "implementClauses st node classInfo clauses = Inl OnStartMember"
    unfolding implementClauses_component[OF assms(5,6)] by (auto split: option.splits)
  then have "implements_fields st node classInfo = Inl OnStartMember"
    by (simp add: implements_fields_def assms(4))
  then show "transformClassDeclaration st node = Inl OnStartMember"
    by (simp add: transform_processed[OF assms(1-3)] metadata_fields_def assms(7))
next
  assume "find (member_named ''onStart'') (members node) = None"
  then have "implementClauses st node classInfo clauses =
      Inr (concat (map (clause_implements st) clauses) @ [getUid st (onStartDeclaration st)])"
    unfolding implementClauses_component[OF assms(5,6)] by simp
  then have i: "implements_fields st node classInfo =
      Inr [(''flamework:implements'',
             ArrayLit (map StringLit (concat (map (clause_implements st) clauses)
                                 @ [getUid st (onStartDeclaration st)])))]"
    by (simp add: implements_fields_def assms(4))
  show "\<forall>r. transformClassDeclaration st node = Inr r \<longrightarrow>
             (\<exists>ms fs. r = Emitted ms fs
                \<and> (''flamework:implements'',
                     ArrayLit (map StringLit (concat (map (clause_implements st) clauses)
                                 @ [getUid st (onStartDeclaration st)]))) \<in> set fs)"
    by (auto simp: transform_processed[OF assms(1-3)] metadata_fields_def assms(7) i
        split: sum.splits)
qed

text \<open>A component that extends its superclass, with and without a member \<open>onStart\<close>.\<close>

theorem onStart_injected_or_collision_witness:
  "transformClassDeclaration (demo_state component_info)
      (component_class (Some extends_Base) [onStart_method]) = Inl OnStartMember
   \<and> (\<exists>ms fs. transformClassDeclaration (demo_state component_info)
          (component_class (Some extends_Base) []) = Inr (Emitted ms fs)
        \<and> (''flamework:implements'', ArrayLit [StringLit ''OnStart'']) \<in> set fs)"
proof -
  let ?st = "demo_state component_info"
  let ?c = "component_class (Some extends_Base) [onStart_method]"
  let ?d = "component_class (Some extends_Base) []"
  have a: "getSymbol ?st (class_id ?c) = Some (Symbol 1 ''s'')"
    by (simp add: demo_defs)
  have b: "class_name ?c = Some ''C''"
    by (simp add: demo_defs)
  have c: "classes ?st (Symbol 1 ''s'') = Some component_info"
    by (simp add: demo_state_def)
  have h: "heritageClauses ?c = Some extends_Base"
    by (simp add: component_class_def)
  have k: "list_ex is_component (decorators component_info)"
    by (simp add: component_info_def component_decorator_def is_component_def)
  have u: "getUid ?st (onStartDeclaration ?st) \<notin> set (concat (map (clause_implements ?st) extends_Base))"
    by (simp add: clause_implements_def extends_Base_def)
  have d: "dependency_fields ?st ?c = Inr []"
    by (simp add: dependency_fields_def demo_defs)
  have m: "find (member_named ''onStart'') (members ?c) \<noteq> None"
    by (simp add: component_class_def onStart_method_def member_named_def)
  have a': "getSymbol ?st (class_id ?d) = Some (Symbol 1 ''s'')"
    by (simp add: demo_defs)
  have b': "class_name ?d = Some ''C''"
    by (simp add: demo_defs)
  have h': "heritageClauses ?d = Some extends_Base"
    by (simp add: component_class_def)
  have d': "dependency_fields ?st ?d = Inr []"
    by (simp add: dependency_fields_def demo_defs)
  have m': "find (member_named ''onStart'') (members ?d) = None"
    by (simp add: component_class_def)
  have r: "\<exists>r. transformClassDeclaration ?st ?d = Inr r"
    by (simp add: synth_defs config_defs rewriter_defs demo_defs)
  have v: "concat (map (clause_implements ?st) extends_Base) @ [getUid ?st (onStartDeclaration ?st)]
      = [''OnStart'']"
    by (simp add: clause_implements_def demo_defs)
  from onStart_injected_or_collision[OF a b c h k u d] m
  have first: "transformClassDeclaration ?st ?c = Inl OnStartMember"
    by blast
  from onStart_injected_or_collision[OF a' b' c h' k u d'] m' r
  have second: "\<exists>ms fs. transformClassDeclaration ?st ?d = Inr (Emitted ms fs)
        \<and> (''flamework:implements'', ArrayLit [StringLit ''OnStart'']) \<in> set fs"
    unfolding v by (simp only: list.map) blast
  from first second show ?thesis by (rule conjI)
qed

section \<open>Use before initialization\<close>

text \<open>
  Claim C5, at the input where the code departs from it. The field \<open>a\<close> is the first
  member of a component that declares \<open>onStart\<close>, and its initializer reads \<open>a\<close> itself:
  a field declared at the position of the referencing field. The validator leaves at
  \<^verbatim>\<open>if (!symbolIndex) return\<close>, index \<open>0\<close> being falsy, and no diagnostic is raised. With
  \<open>onStart\<close> declared first the field has index \<open>1\<close> and the same initializer raises
  \<open>Property 'a' is used before its initialization\<close>.
\<close>

theorem first_field_self_reference_not_detected:
  "updateClass (demo_state component_info) (component_class None [field_a, onStart_method])
      [component_decorator]
     = Inr [InferredProperty 30 (Identifier ''a'') this_a NoToken,
            MethodDeclaration (Identifier ''onStart'')
              (Some [AssignField ''a'' this_a, BlockStmt []])]
   \<and> updateClass (demo_state component_info) (component_class None [onStart_method, field_a])
      [component_decorator]
     = Inl (UsedBeforeInitialization ''a'')"
  by (simp add: updateClass_def is_component_def rewriter_defs demo_defs)

section \<open>The rewritten constructor\<close>




end
